theory Spec2Isabelle
  imports Main
begin

section \<open>JavaScript values used by the controllers\<close>

text \<open>
  Request bodies, provider payloads and the \<open>decision\<close> object are JSON values as
  \<open>express.json()\<close> hands them to the handlers.  Strings are lists of 8-bit characters
  (exact for ASCII text); numbers are integers.  A property that is absent
  (JavaScript \<open>undefined\<close>) is \<open>None\<close> of type \<open>json option\<close>.
\<close>

datatype json =
    JNull
  | JBool bool
  | JNum int
  | JStr string
  | JArr "json list"
  | JObj "(string \<times> json) list"

text \<open>Property access \<open>v.k\<close> with optional chaining: \<open>undefined\<close> on anything but an object
  that has the key.\<close>

fun getProp :: "string \<Rightarrow> json option \<Rightarrow> json option" where
  "getProp k (Some (JObj kvs)) = map_of kvs k"
| "getProp k _ = None"

text \<open>JavaScript truthiness, as tested by \<open>if (v)\<close>, \<open>!v\<close> and \<open>v || d\<close>.\<close>

fun truthy :: "json option \<Rightarrow> bool" where
  "truthy None = False"
| "truthy (Some JNull) = False"
| "truthy (Some (JBool b)) = b"
| "truthy (Some (JNum n)) = (n \<noteq> 0)"
| "truthy (Some (JStr s)) = (s \<noteq> [])"
| "truthy (Some (JArr _)) = True"
| "truthy (Some (JObj _)) = True"

text \<open>Truthiness of a string that may be \<open>undefined\<close> (a header, an environment variable, a
  nullable text column).\<close>

fun truthyStr :: "string option \<Rightarrow> bool" where
  "truthyStr None = False"
| "truthyStr (Some s) = (s \<noteq> [])"

subsection \<open>Number and string conversion\<close>

definition digitChar :: "nat \<Rightarrow> char" where
  "digitChar d = ''0123456789abcdef'' ! (d mod 16)"

function natDigits :: "nat \<Rightarrow> string" where
  "natDigits n = (if n < 10 then [digitChar n] else natDigits (n div 10) @ [digitChar (n mod 10)])"
  by pat_completeness auto
termination
  by (relation "measure (\<lambda>n. n)") auto

definition intDigits :: "int \<Rightarrow> string" where
  "intDigits i = (if i < 0 then CHR ''-'' # natDigits (nat (- i)) else natDigits (nat i))"

fun intercalate :: "string \<Rightarrow> string list \<Rightarrow> string" where
  "intercalate sep [] = []"
| "intercalate sep [x] = x"
| "intercalate sep (x # y # ys) = x @ sep @ intercalate sep (y # ys)"

subsection \<open>JSON.stringify\<close>

text \<open>
  \<open>JSON.stringify\<close> without indentation: no white space between tokens, members in
  insertion order, strings quoted with the escapes of ECMA-262 (\<open>QuoteJSONString\<close>).
\<close>

definition escapeChar :: "char \<Rightarrow> string" where
  "escapeChar c =
     (if c = CHR 0x22 then [CHR 0x5C, CHR 0x22]
      else if c = CHR 0x5C then [CHR 0x5C, CHR 0x5C]
      else if c = CHR 0x08 then [CHR 0x5C, CHR ''b'']
      else if c = CHR 0x0C then [CHR 0x5C, CHR ''f'']
      else if c = CHR 0x0A then [CHR 0x5C, CHR ''n'']
      else if c = CHR 0x0D then [CHR 0x5C, CHR ''r'']
      else if c = CHR 0x09 then [CHR 0x5C, CHR ''t'']
      else if (of_char c :: nat) < 32
        then [CHR 0x5C, CHR ''u'', CHR ''0'', CHR ''0'',
              digitChar (of_char c div 16), digitChar (of_char c mod 16)]
      else [c])"

definition quoteJSONString :: "string \<Rightarrow> string" where
  "quoteJSONString s = CHR 0x22 # concat (map escapeChar s) @ [CHR 0x22]"

fun JSON_stringify :: "json \<Rightarrow> string"
  and stringifyElems :: "json list \<Rightarrow> string list"
  and stringifyMembers :: "(string \<times> json) list \<Rightarrow> string list" where
  "JSON_stringify JNull = ''null''"
| "JSON_stringify (JBool b) = (if b then ''true'' else ''false'')"
| "JSON_stringify (JNum n) = intDigits n"
| "JSON_stringify (JStr s) = quoteJSONString s"
| "JSON_stringify (JArr xs) = ''['' @ intercalate '','' (stringifyElems xs) @ '']''"
| "JSON_stringify (JObj kvs) = ''{'' @ intercalate '','' (stringifyMembers kvs) @ ''}''"
| "stringifyElems [] = []"
| "stringifyElems (x # xs) = JSON_stringify x # stringifyElems xs"
| "stringifyMembers [] = []"
| "stringifyMembers ((k, v) # kvs) =
     (quoteJSONString k @ '':'' @ JSON_stringify v) # stringifyMembers kvs"

text \<open>String conversion in a template literal, \<open>`${v}`\<close>.\<close>

fun elemToString :: "json \<Rightarrow> string" where
  "elemToString JNull = []"
| "elemToString (JBool b) = (if b then ''true'' else ''false'')"
| "elemToString (JNum n) = intDigits n"
| "elemToString (JStr s) = s"
| "elemToString (JArr xs) = intercalate '','' (map elemToString xs)"
| "elemToString (JObj _) = ''[object Object]''"

fun toStringJS :: "json option \<Rightarrow> string" where
  "toStringJS None = ''undefined''"
| "toStringJS (Some JNull) = ''null''"
| "toStringJS (Some v) = elemToString v"

section \<open>Data model\<close>

text \<open>
  One row of the \<open>users\<close> table (Prisma model \<open>User\<close>, migration
  \<open>add_email_verified\<close>).  Timestamps are readings of the clock, natural numbers.  The
  columns \<open>createdAt\<close> and \<open>updatedAt\<close> are maintained by the ORM, are never read or
  written by the controllers, and are left out.
\<close>

record user =
  id_col :: string
  email :: string
  kycStatus :: string
  kycProvider :: "string option"
  kycCompletedAt :: "nat option"
  kycDetails :: "string option"
  tradingEnabled :: bool
  verificationRetries :: int
  lastVerificationAttempt :: "nat option"
  idVerified :: bool
  phoneVerified :: bool
  phoneNumber :: "string option"
  emailVerified :: bool

text \<open>The row \<open>prisma.user.create\<close> inserts: every other column takes its default.\<close>

definition newUser :: "string \<Rightarrow> string \<Rightarrow> user" where
  "newUser i e =
     \<lparr>id_col = i, email = e, kycStatus = ''PENDING'', kycProvider = None,
      kycCompletedAt = None, kycDetails = None, tradingEnabled = False,
      verificationRetries = 0, lastVerificationAttempt = None, idVerified = False,
      phoneVerified = False, phoneNumber = None, emailVerified = False\<rparr>"

text \<open>
  The state the handlers share: the user table behind \<open>prisma\<close> and the Redis
  correlation cache behind \<open>req.app.locals.redis\<close>; a cache entry is its value and the
  time it expires (\<open>EX\<close>).
\<close>

record world =
  users :: "string \<rightharpoonup> user"
  cache :: "string \<rightharpoonup> (string \<times> nat)"

subsection \<open>Errors\<close>

text \<open>
  What a \<open>catch (error)\<close> block can see of the thrown value: \<open>error.response\<close> (set by
  axios when the provider answered with a non-2xx status) and \<open>error.message\<close>.
\<close>

record upstream =
  resp_status :: int
  resp_data :: "json option"
  retry_after :: "string option"

record js_error =
  err_response :: "upstream option"
  err_message :: string

definition plainError :: "string \<Rightarrow> js_error" where
  "plainError m = \<lparr>err_response = None, err_message = m\<rparr>"

definition TypeError :: js_error where
  "TypeError = plainError ''TypeError''"

definition RangeError :: js_error where
  "RangeError = plainError ''RangeError: Input buffers must have the same byte length''"

definition RecordNotFound :: js_error where
  "RecordNotFound = plainError ''Record to update not found.''"

definition PrismaValidationError :: js_error where
  "PrismaValidationError = plainError ''PrismaClientValidationError''"

subsection \<open>The environment of one request\<close>

text \<open>
  Everything a handler obtains from outside during one request: the clock, the fresh
  \<open>uuidv4()\<close>, the outcome of its single axios call (the error thrown, or
  \<open>response.data\<close>), and for every call site of the database and of Redis whether that call
  throws.
\<close>

datatype db_call =
  FindUser | CreateUser | UpdateRetries | UpdateStatus | UpdateData | UpdateTrading

datatype redis_call = SetSession | SetPhone | GetSession | DelSession

record env =
  now :: nat
  correlationId :: string
  provider :: "js_error + json"
  dbFault :: "db_call \<Rightarrow> js_error option"
  redisFault :: "redis_call \<Rightarrow> js_error option"

subsection \<open>Prisma calls\<close>

text \<open>
  The \<open>data\<close> argument of \<open>prisma.user.update\<close>: \<open>None\<close> is a column that the update does
  not mention.  \<open>phoneNumber\<close> carries the payload's value as it is; the column is a
  nullable string.
\<close>

record update_data =
  d_kycProvider :: "string option"
  d_kycStatus :: "string option"
  d_kycCompletedAt :: "nat option option"
  d_kycDetails :: "string option"
  d_tradingEnabled :: "bool option"
  d_verificationRetries :: "int option"
  d_lastVerificationAttempt :: "nat option"
  d_idVerified :: "bool option"
  d_phoneVerified :: "bool option"
  d_phoneNumber :: "json option"

definition noUpdate :: update_data where
  "noUpdate =
     \<lparr>d_kycProvider = None, d_kycStatus = None, d_kycCompletedAt = None,
      d_kycDetails = None, d_tradingEnabled = None, d_verificationRetries = None,
      d_lastVerificationAttempt = None, d_idVerified = None, d_phoneVerified = None,
      d_phoneNumber = None\<rparr>"

fun validData :: "update_data \<Rightarrow> bool" where
  "validData d =
     (case d_phoneNumber d of
        None \<Rightarrow> True
      | Some JNull \<Rightarrow> True
      | Some (JStr _) \<Rightarrow> True
      | Some _ \<Rightarrow> False)"

definition applyUpdate :: "update_data \<Rightarrow> user \<Rightarrow> user" where
  "applyUpdate d u =
     u\<lparr>kycProvider := (case d_kycProvider d of None \<Rightarrow> kycProvider u | Some p \<Rightarrow> Some p),
       kycStatus := (case d_kycStatus d of None \<Rightarrow> kycStatus u | Some s \<Rightarrow> s),
       kycCompletedAt := (case d_kycCompletedAt d of None \<Rightarrow> kycCompletedAt u | Some t \<Rightarrow> t),
       kycDetails := (case d_kycDetails d of None \<Rightarrow> kycDetails u | Some k \<Rightarrow> Some k),
       tradingEnabled := (case d_tradingEnabled d of None \<Rightarrow> tradingEnabled u | Some b \<Rightarrow> b),
       verificationRetries :=
         (case d_verificationRetries d of None \<Rightarrow> verificationRetries u | Some n \<Rightarrow> n),
       lastVerificationAttempt :=
         (case d_lastVerificationAttempt d of
            None \<Rightarrow> lastVerificationAttempt u | Some t \<Rightarrow> Some t),
       idVerified := (case d_idVerified d of None \<Rightarrow> idVerified u | Some b \<Rightarrow> b),
       phoneVerified := (case d_phoneVerified d of None \<Rightarrow> phoneVerified u | Some b \<Rightarrow> b),
       phoneNumber :=
         (case d_phoneNumber d of
            None \<Rightarrow> phoneNumber u
          | Some (JStr s) \<Rightarrow> Some s
          | Some _ \<Rightarrow> None)\<rparr>"

text \<open>\<open>prisma.user.findUnique({ where: { id } })\<close>.\<close>

definition findUnique :: "env \<Rightarrow> string \<Rightarrow> world \<Rightarrow> js_error + user option" where
  "findUnique e i w = (case dbFault e FindUser of Some x \<Rightarrow> Inl x | None \<Rightarrow> Inr (users w i))"

text \<open>\<open>prisma.user.create({ data: { id, email } })\<close>; the call site is reached only when the
  id is free.\<close>

definition createUser :: "env \<Rightarrow> string \<Rightarrow> string \<Rightarrow> world \<Rightarrow> js_error + (user \<times> world)" where
  "createUser e i m w =
     (case dbFault e CreateUser of
        Some x \<Rightarrow> Inl x
      | None \<Rightarrow> Inr (newUser i m, w\<lparr>users := (users w)(i \<mapsto> newUser i m)\<rparr>))"

text \<open>
  \<open>prisma.user.update({ where: { id }, data })\<close>: it throws when the id is not a string,
  when \<open>data\<close> does not fit the columns, and when no row has the id.
\<close>

definition updateUser ::
  "env \<Rightarrow> db_call \<Rightarrow> json option \<Rightarrow> update_data \<Rightarrow> world \<Rightarrow> js_error + world" where
  "updateUser e site i d w =
     (case dbFault e site of
        Some x \<Rightarrow> Inl x
      | None \<Rightarrow>
         (case i of
            Some (JStr k) \<Rightarrow>
              (if \<not> validData d then Inl PrismaValidationError
               else case users w k of
                      None \<Rightarrow> Inl RecordNotFound
                    | Some u \<Rightarrow> Inr (w\<lparr>users := (users w)(k \<mapsto> applyUpdate d u)\<rparr>))
          | _ \<Rightarrow> Inl PrismaValidationError))"

subsection \<open>Redis calls\<close>

definition redisSet ::
  "env \<Rightarrow> redis_call \<Rightarrow> string \<Rightarrow> string \<Rightarrow> nat \<Rightarrow> world \<Rightarrow> js_error + world" where
  "redisSet e site k v ttl w =
     (case redisFault e site of
        Some x \<Rightarrow> Inl x
      | None \<Rightarrow> Inr (w\<lparr>cache := (cache w)(k \<mapsto> (v, now e + ttl))\<rparr>))"

definition redisGet :: "env \<Rightarrow> string \<Rightarrow> world \<Rightarrow> js_error + string option" where
  "redisGet e k w =
     (case redisFault e GetSession of
        Some x \<Rightarrow> Inl x
      | None \<Rightarrow>
         Inr (case cache w k of
                None \<Rightarrow> None
              | Some (v, t) \<Rightarrow> if now e < t then Some v else None))"

definition redisDel :: "env \<Rightarrow> string \<Rightarrow> world \<Rightarrow> js_error + world" where
  "redisDel e k w =
     (case redisFault e DelSession of
        Some x \<Rightarrow> Inl x
      | None \<Rightarrow> Inr (w\<lparr>cache := (cache w)(k := None)\<rparr>))"

section \<open>HTTP replies\<close>

text \<open>
  The JSON bodies the controllers send, one constructor for each shape, and the reply of a
  handler: a status with a body, or an exception that leaves the handler uncaught (no
  reply is written).
\<close>

record session_view =
  session_id :: "json option"
  session_number :: "json option"
  session_token :: "json option"
  verification_url :: "json option"
  session_status :: "json option"
  expires_in :: nat
  retriesUsed :: int
  retriesRemaining :: int

record status_view =
  sv_userId :: string
  sv_email :: string
  sv_kycStatus :: string
  sv_kycProvider :: "string option"
  sv_idVerified :: bool
  sv_phoneVerified :: bool
  sv_phoneNumber :: "string option"
  sv_verificationRetries :: int
  sv_retriesRemaining :: int
  sv_lastAttempt :: "nat option"
  sv_completedAt :: "nat option"
  sv_tradingEnabled :: bool

datatype body =
    ValidationFailed "string list"
  | AlreadyVerified bool bool string "nat option"
  | MaxAttemptsExceeded int int
  | SessionCreated session_view
  | PhoneNumberRequired
  | ProviderData json
  | InvalidSignature
  | Received "string option"
  | StatusBody status_view
  | UserNotFound
  | FetchStatusFailed
  | AuthenticationFailed
  | PermissionDenied "json option"
  | InvalidRequest "json option"
  | RateLimitExceeded "string option"
  | ResourceNotFound
  | ServiceUnavailable string

datatype reply = Reply nat body | Uncaught js_error

text \<open>The outbound calls to the provider, with the JSON payload posted.\<close>

datatype provider_call = PostSession json | PostPhoneSend json

record outcome =
  reply :: reply
  after :: world
  calls :: "provider_call list"

section \<open>verificationController.js\<close>

subsection \<open>Configuration and constants\<close>

record config =
  DIDIT_API_KEY :: "string option"
  DIDIT_WORKFLOW_ID :: "string option"
  DIDIT_WEBHOOK_SECRET :: "string option"
  APP_URL :: "string option"
  FRONTEND_URL :: "string option"

definition MAX_VERIFICATION_RETRIES :: int where
  "MAX_VERIFICATION_RETRIES = 2"

definition SESSION_TTL :: nat where
  "SESSION_TTL = 3600"

definition PHONE_CODE_VALIDITY :: nat where
  "PHONE_CODE_VALIDITY = 300"

text \<open>An environment variable inside a template literal, and as a JSON property (an
  \<open>undefined\<close> property is dropped by the serialiser).\<close>

definition envStr :: "string option \<Rightarrow> string" where
  "envStr v = (case v of None \<Rightarrow> ''undefined'' | Some s \<Rightarrow> s)"

definition optMember :: "string \<Rightarrow> json option \<Rightarrow> (string \<times> json) list" where
  "optMember k v = (case v of None \<Rightarrow> [] | Some j \<Rightarrow> [(k, j)])"

definition CALLBACK_URL :: "config \<Rightarrow> string" where
  "CALLBACK_URL cfg = envStr (APP_URL cfg) @ ''/api/v1/didit/webhook''"

subsection \<open>Helper functions\<close>

text \<open>\<open>maskPhoneNumber(phone)\<close>; \<open>phone.slice(-4)\<close> is the last four characters.\<close>

definition maskPhoneNumber :: "string option \<Rightarrow> string option" where
  "maskPhoneNumber phone =
     (case phone of
        None \<Rightarrow> None
      | Some p \<Rightarrow>
          if p = [] then None
          else if length p \<le> 4 then Some p
          else Some (''***'' @ drop (length p - 4) p))"

text \<open>\<open>handleDiditApiError(error, res)\<close>.\<close>

definition handleDiditApiError :: "js_error \<Rightarrow> reply" where
  "handleDiditApiError error =
     (let status = map_option resp_status (err_response error);
          data = (case err_response error of None \<Rightarrow> None | Some r \<Rightarrow> resp_data r)
      in if status = Some 401 then Reply 500 AuthenticationFailed
         else if status = Some 403 then Reply 500 (PermissionDenied data)
         else if status = Some 400 then Reply 400 (InvalidRequest data)
         else if status = Some 429 then
           Reply 429 (RateLimitExceeded
             (case err_response error of None \<Rightarrow> None | Some r \<Rightarrow> retry_after r))
         else if status = Some 404 then Reply 404 ResourceNotFound
         else Reply 502 (ServiceUnavailable (err_message error)))"

text \<open>\<open>crypto.timingSafeEqual\<close> on two buffers: it throws when their byte lengths differ.\<close>

definition timingSafeEqual :: "string \<Rightarrow> string \<Rightarrow> js_error + bool" where
  "timingSafeEqual a b = (if length a \<noteq> length b then Inl RangeError else Inr (a = b))"

text \<open>
  \<open>verifyWebhookSignature(rawBody, signature)\<close>.  The first argument \<open>H\<close> is
  \<open>crypto.createHmac('sha256', key).update(msg).digest('hex')\<close>, a function of the key
  and the message.
\<close>

definition verifyWebhookSignature ::
  "(string \<Rightarrow> string \<Rightarrow> string) \<Rightarrow> config \<Rightarrow> string \<Rightarrow> string option \<Rightarrow> bool" where
  "verifyWebhookSignature H cfg rawBody signature =
     (case (signature, DIDIT_WEBHOOK_SECRET cfg) of
        (Some sg, Some key) \<Rightarrow>
          if sg = [] \<or> key = [] then False
          else (case timingSafeEqual sg (H key rawBody) of Inl _ \<Rightarrow> False | Inr b \<Rightarrow> b)
      | _ \<Rightarrow> False)"

subsection \<open>POST /session/create\<close>

text \<open>The request after the validation chain: \<open>validationResult(req)\<close> and the fields the
  handler reads from \<open>req.body\<close>.\<close>

record session_req =
  sr_errors :: "string list"
  sr_userId :: string
  sr_contactDetails :: "json option"
  sr_expectedDetails :: "json option"
  sr_metadata :: "json option"

text \<open>The \<open>catch\<close> block of a handler that calls the provider.\<close>

definition caught :: "js_error \<Rightarrow> world \<Rightarrow> provider_call list \<Rightarrow> outcome" where
  "caught x w cs = \<lparr>reply = handleDiditApiError x, after = w, calls = cs\<rparr>"

text \<open>``Ensure user exists'': the row found, or the row created.\<close>

definition ensureUser :: "env \<Rightarrow> session_req \<Rightarrow> world \<Rightarrow> js_error + (user \<times> world)" where
  "ensureUser e r w =
     (case findUnique e (sr_userId r) w of
        Inl x \<Rightarrow> Inl x
      | Inr (Some u) \<Rightarrow> Inr (u, w)
      | Inr None \<Rightarrow>
          (let em = getProp ''email'' (sr_contactDetails r)
           in if truthy em
              then (case em of
                      Some (JStr m) \<Rightarrow> createUser e (sr_userId r) m w
                    | _ \<Rightarrow> Inl PrismaValidationError)
              else createUser e (sr_userId r) (sr_userId r @ ''@example.com'') w))"

definition sessionPayload :: "config \<Rightarrow> session_req \<Rightarrow> json" where
  "sessionPayload cfg r =
     JObj (optMember ''workflow_id'' (map_option JStr (DIDIT_WORKFLOW_ID cfg))
           @ [(''vendor_data'', JStr (sr_userId r)),
              (''callback'', JStr (CALLBACK_URL cfg)),
              (''redirect_url_success'',
                 JStr (envStr (FRONTEND_URL cfg) @ ''/verification/success'')),
              (''redirect_url_failure'',
                 JStr (envStr (FRONTEND_URL cfg) @ ''/verification/failed''))]
           @ (if truthy (sr_contactDetails r)
              then optMember ''contact_details'' (sr_contactDetails r) else [])
           @ (if truthy (sr_expectedDetails r)
              then optMember ''expected_details'' (sr_expectedDetails r) else [])
           @ (if truthy (sr_metadata r) then optMember ''metadata'' (sr_metadata r) else []))"

text \<open>The part of the handler after \<open>axios.post\<close> has returned \<open>response.data\<close>.\<close>

definition sessionAccepted ::
  "env \<Rightarrow> session_req \<Rightarrow> user \<Rightarrow> json \<Rightarrow> provider_call list \<Rightarrow> world \<Rightarrow> outcome" where
  "sessionAccepted e r u d cs w =
     (if d = JNull then caught TypeError w cs
      else
        case updateUser e UpdateRetries (Some (JStr (sr_userId r)))
               (noUpdate\<lparr>d_verificationRetries := Some (verificationRetries u + 1),
                          d_lastVerificationAttempt := Some (now e)\<rparr>) w of
          Inl x \<Rightarrow> caught x w cs
        | Inr w1 \<Rightarrow>
            (let sid = getProp ''session_id'' (Some d);
                 snum = getProp ''session_number'' (Some d);
                 entry = JSON_stringify (JObj
                   ([(''userId'', JStr (sr_userId r)),
                     (''correlationId'', JStr (correlationId e)),
                     (''initiatedAt'', JNum (int (now e)))]
                    @ optMember ''sessionNumber'' snum));
                 w2 = (case redisSet e SetSession (''didit:session:'' @ toStringJS sid)
                              entry SESSION_TTL w1 of
                         Inl _ \<Rightarrow> w1
                       | Inr w' \<Rightarrow> w')
             in \<lparr>reply = Reply 201 (SessionCreated
                    \<lparr>session_id = sid, session_number = snum,
                     session_token = getProp ''session_token'' (Some d),
                     verification_url = getProp ''url'' (Some d),
                     session_status = getProp ''status'' (Some d),
                     expires_in = SESSION_TTL,
                     retriesUsed = verificationRetries u + 1,
                     retriesRemaining =
                       MAX_VERIFICATION_RETRIES - (verificationRetries u + 1)\<rparr>),
                  after = w2, calls = cs\<rparr>))"

definition createVerificationSession ::
  "config \<Rightarrow> env \<Rightarrow> session_req \<Rightarrow> world \<Rightarrow> outcome" where
  "createVerificationSession cfg e r w =
     (if sr_errors r \<noteq> []
      then \<lparr>reply = Reply 400 (ValidationFailed (sr_errors r)), after = w, calls = []\<rparr>
      else
        case ensureUser e r w of
          Inl x \<Rightarrow> caught x w []
        | Inr (u, w1) \<Rightarrow>
            if kycStatus u = ''VERIFIED''
            then \<lparr>reply = Reply 200 (AlreadyVerified (idVerified u) (phoneVerified u)
                                       (kycStatus u) (kycCompletedAt u)),
                  after = w1, calls = []\<rparr>
            else if verificationRetries u \<ge> MAX_VERIFICATION_RETRIES
            then \<lparr>reply = Reply 429 (MaxAttemptsExceeded (verificationRetries u)
                                       MAX_VERIFICATION_RETRIES),
                  after = w1, calls = []\<rparr>
            else
              (case provider e of
                 Inl x \<Rightarrow> caught x w1 [PostSession (sessionPayload cfg r)]
               | Inr d \<Rightarrow> sessionAccepted e r u d [PostSession (sessionPayload cfg r)] w1))"

subsection \<open>POST /phone/send\<close>

record phone_req =
  pr_errors :: "string list"
  pr_phone_number :: "string option"
  pr_phoneNumber :: "string option"
  pr_userId :: "string option"

definition phoneAccepted ::
  "env \<Rightarrow> phone_req \<Rightarrow> string \<Rightarrow> json \<Rightarrow> provider_call list \<Rightarrow> world \<Rightarrow> outcome" where
  "phoneAccepted e r incomingNumber d cs w =
     (if d = JNull then caught TypeError w cs
      else
        let entry = JSON_stringify (JObj
              (optMember ''userId'' (map_option JStr (pr_userId r))
               @ [(''phoneNumber'', JStr incomingNumber),
                  (''correlationId'', JStr (correlationId e)),
                  (''sentAt'', JNum (int (now e)))]));
            w1 = (case redisSet e SetPhone
                         (''didit:phone:'' @ toStringJS (getProp ''request_id'' (Some d)))
                         entry PHONE_CODE_VALIDITY w of
                    Inl _ \<Rightarrow> w
                  | Inr w' \<Rightarrow> w')
        in \<lparr>reply = Reply 200 (ProviderData d), after = w1, calls = cs\<rparr>)"

definition sendPhoneVerificationCode :: "env \<Rightarrow> phone_req \<Rightarrow> world \<Rightarrow> outcome" where
  "sendPhoneVerificationCode e r w =
     (if pr_errors r \<noteq> []
      then \<lparr>reply = Reply 400 (ValidationFailed (pr_errors r)), after = w, calls = []\<rparr>
      else
        let incoming = (if truthyStr (pr_phone_number r) then pr_phone_number r
                        else pr_phoneNumber r)
        in case incoming of
             None \<Rightarrow> \<lparr>reply = Reply 400 PhoneNumberRequired, after = w, calls = []\<rparr>
           | Some n \<Rightarrow>
               if n = [] then \<lparr>reply = Reply 400 PhoneNumberRequired, after = w, calls = []\<rparr>
               else
                 (case provider e of
                    Inl x \<Rightarrow> caught x w [PostPhoneSend (JObj [(''phone_number'', JStr n)])]
                  | Inr d \<Rightarrow>
                      phoneAccepted e r n d
                        [PostPhoneSend (JObj [(''phone_number'', JStr n)])] w))"

subsection \<open>POST /webhook\<close>

text \<open>
  A webhook request: the bytes of the body as they arrived, the value \<open>express.json()\<close>
  parsed from them into \<open>req.body\<close> (an object or an array, the parser being strict), and
  the header \<open>x-didit-signature\<close>.
\<close>

datatype parsed_body = ObjectBody "(string \<times> json) list" | ArrayBody "json list"

fun bodyValue :: "parsed_body \<Rightarrow> json" where
  "bodyValue (ObjectBody kvs) = JObj kvs"
| "bodyValue (ArrayBody xs) = JArr xs"

record webhook_req =
  wireBytes :: string
  wh_body :: parsed_body
  wh_signature :: "string option"

text \<open>\<open>const rawBody = JSON.stringify(req.body)\<close>, the message whose digest is compared.\<close>

definition rawBody :: "webhook_req \<Rightarrow> string" where
  "rawBody r = JSON_stringify (bodyValue (wh_body r))"

text \<open>\<open>handleStatusUpdate(userId, status, decision, payload)\<close>: the \<open>updateData\<close> it
  builds, then the update.\<close>

definition statusUpdateData :: "nat \<Rightarrow> json option \<Rightarrow> json option \<Rightarrow> update_data" where
  "statusUpdateData t status decision =
     (let d0 = noUpdate\<lparr>d_kycProvider := Some ''DIDIT''\<rparr>;
          d1 = (if status = Some (JStr ''Approved'')
                then d0\<lparr>d_kycStatus := Some ''VERIFIED'', d_kycCompletedAt := Some (Some t)\<rparr>
                else if status = Some (JStr ''Declined'')
                then d0\<lparr>d_kycStatus := Some ''FAILED''\<rparr>
                else if status = Some (JStr ''In Review'')
                then d0\<lparr>d_kycStatus := Some ''PENDING''\<rparr>
                else d0)
      in case decision of
           None \<Rightarrow> d1
         | Some dv \<Rightarrow>
             if \<not> truthy decision then d1
             else
               let idv = getProp ''id_verification'' decision;
                   d2 = (if truthy idv
                         then d1\<lparr>d_idVerified :=
                                   Some (getProp ''status'' idv = Some (JStr ''Approved''))\<rparr>
                         else d1);
                   pv = getProp ''phone_verification'' decision;
                   d3 = (if truthy pv
                         then (let d2' = d2\<lparr>d_phoneVerified :=
                                     Some (getProp ''status'' pv = Some (JStr ''Approved''))\<rparr>
                               in if truthy (getProp ''phone_number'' pv)
                                  then d2'\<lparr>d_phoneNumber := getProp ''phone_number'' pv\<rparr>
                                  else d2')
                         else d2)
               in d3\<lparr>d_kycDetails := Some (JSON_stringify dv)\<rparr>)"

definition handleStatusUpdate ::
  "env \<Rightarrow> json option \<Rightarrow> json option \<Rightarrow> json option \<Rightarrow> world \<Rightarrow> js_error + world" where
  "handleStatusUpdate e userId status decision w =
     updateUser e UpdateStatus userId (statusUpdateData (now e) status decision) w"

text \<open>\<open>handleDataUpdate(userId, decision, payload)\<close>.\<close>

definition handleDataUpdate ::
  "env \<Rightarrow> json option \<Rightarrow> json option \<Rightarrow> world \<Rightarrow> js_error + world" where
  "handleDataUpdate e userId decision w =
     (case decision of
        None \<Rightarrow> Inr w
      | Some dv \<Rightarrow>
          if truthy decision
          then updateUser e UpdateData userId
                 (noUpdate\<lparr>d_kycDetails := Some (JSON_stringify dv)\<rparr>) w
          else Inr w)"

text \<open>\<open>triggerPostVerificationActions(userId, decision)\<close>: its own \<open>try/catch\<close> swallows a
  failed update.\<close>

definition triggerPostVerificationActions :: "env \<Rightarrow> json option \<Rightarrow> world \<Rightarrow> world" where
  "triggerPostVerificationActions e userId w =
     (case updateUser e UpdateTrading userId (noUpdate\<lparr>d_tradingEnabled := Some True\<rparr>) w of
        Inl _ \<Rightarrow> w
      | Inr w' \<Rightarrow> w')"

text \<open>
  The \<open>try\<close> block of \<open>handleWebhook\<close>, in the order of the source: the session
  context is read from Redis (it is not used after it is read, and a failure of the read is
  caught on the spot), the webhook is dispatched on its type, and what follows the
  dispatch is the cache clean-up and the post-verification actions.
\<close>

definition sessionKey :: "json option \<Rightarrow> string" where
  "sessionKey sid = ''didit:session:'' @ toStringJS sid"

definition dispatchWebhook :: "env \<Rightarrow> json \<Rightarrow> world \<Rightarrow> js_error + world" where
  "dispatchWebhook e payload w =
     (let status = getProp ''status'' (Some payload);
          userId = getProp ''vendor_data'' (Some payload);
          webhook_type = getProp ''webhook_type'' (Some payload);
          decision = getProp ''decision'' (Some payload)
      in if webhook_type = Some (JStr ''status.updated'')
         then handleStatusUpdate e userId status decision w
         else if webhook_type = Some (JStr ''data.updated'')
         then handleDataUpdate e userId decision w
         else Inr w)"

definition finishWebhook :: "env \<Rightarrow> json \<Rightarrow> world \<Rightarrow> world" where
  "finishWebhook e payload w1 =
     (let sid = getProp ''session_id'' (Some payload);
          status = getProp ''status'' (Some payload);
          userId = getProp ''vendor_data'' (Some payload);
          decision = getProp ''decision'' (Some payload);
          w2 = (if status \<in> {Some (JStr ''Approved''), Some (JStr ''Declined''),
                               Some (JStr ''Abandoned'')}
                then (case redisDel e (sessionKey sid) w1 of
                        Inl _ \<Rightarrow> w1
                      | Inr w' \<Rightarrow> w')
                else w1)
      in if status = Some (JStr ''Approved'') \<and> truthy decision
         then triggerPostVerificationActions e userId w2
         else w2)"

definition processWebhook :: "env \<Rightarrow> json \<Rightarrow> world \<Rightarrow> js_error + world" where
  "processWebhook e payload w =
     (let sid = getProp ''session_id'' (Some payload);
          sessionContext = (case redisGet e (sessionKey sid) w of Inl _ \<Rightarrow> None | Inr v \<Rightarrow> v)
      in case dispatchWebhook e payload w of
           Inl x \<Rightarrow> Inl x
         | Inr w1 \<Rightarrow> Inr (finishWebhook e payload w1))"

definition handleWebhook ::
  "(string \<Rightarrow> string \<Rightarrow> string) \<Rightarrow> config \<Rightarrow> env \<Rightarrow> webhook_req \<Rightarrow> world \<Rightarrow> outcome" where
  "handleWebhook H cfg e r w =
     (if \<not> verifyWebhookSignature H cfg (rawBody r) (wh_signature r)
      then \<lparr>reply = Reply 401 InvalidSignature, after = w, calls = []\<rparr>
      else
        case processWebhook e (bodyValue (wh_body r)) w of
          Inl x \<Rightarrow> \<lparr>reply = Reply 200 (Received (Some (err_message x))), after = w, calls = []\<rparr>
        | Inr w' \<Rightarrow> \<lparr>reply = Reply 200 (Received None), after = w', calls = []\<rparr>)"

subsection \<open>GET /status/:userId\<close>

definition getUserVerificationStatus :: "env \<Rightarrow> string \<Rightarrow> world \<Rightarrow> reply" where
  "getUserVerificationStatus e userId w =
     (case findUnique e userId w of
        Inl _ \<Rightarrow> Reply 500 FetchStatusFailed
      | Inr None \<Rightarrow> Reply 404 UserNotFound
      | Inr (Some u) \<Rightarrow>
          Reply 200 (StatusBody
            \<lparr>sv_userId = id_col u, sv_email = email u, sv_kycStatus = kycStatus u,
             sv_kycProvider = kycProvider u, sv_idVerified = idVerified u,
             sv_phoneVerified = phoneVerified u,
             sv_phoneNumber = (if truthyStr (phoneNumber u)
                               then maskPhoneNumber (phoneNumber u) else None),
             sv_verificationRetries = verificationRetries u,
             sv_retriesRemaining = max 0 (MAX_VERIFICATION_RETRIES - verificationRetries u),
             sv_lastAttempt = lastVerificationAttempt u,
             sv_completedAt = kycCompletedAt u,
             sv_tradingEnabled = tradingEnabled u\<rparr>))"

section \<open>diditAuthController.js (legacy routes)\<close>

text \<open>
  The controller behind \<open>/api/v1/didit/initiate\<close> and \<open>/api/v1/didit/webhook\<close>, kept by
  \<open>server.js\<close> beside the routes above.  Its replies carry fewer fields.
\<close>

datatype legacy_body =
    L_ValidationFailed "string list"
  | L_MaxAttemptsExceeded int int
  | L_AlreadyVerified bool bool string
  | L_SessionCreated "json option" "json option" nat int int
  | L_InvalidApiKey
  | L_PermissionDenied "json option"
  | L_InvalidRequest "json option"
  | L_FailedToConnect string "json option"
  | L_InvalidSignature
  | L_Received

datatype legacy_reply = L_Reply nat legacy_body | L_Uncaught js_error

record legacy_outcome =
  l_reply :: legacy_reply
  l_after :: world
  l_calls :: "provider_call list"

subsection \<open>POST /api/v1/didit/initiate\<close>

definition MAX_RETRIES :: int where
  "MAX_RETRIES = 2"

text \<open>The \<open>catch\<close> block of \<open>initiateDiditVerification\<close>.\<close>

definition legacyCaught :: "js_error \<Rightarrow> world \<Rightarrow> provider_call list \<Rightarrow> legacy_outcome" where
  "legacyCaught x w cs =
     (let status = map_option resp_status (err_response x);
          data = (case err_response x of None \<Rightarrow> None | Some r \<Rightarrow> resp_data r)
      in \<lparr>l_reply =
             (if status = Some 401 then L_Reply 500 L_InvalidApiKey
              else if status = Some 403 then L_Reply 500 (L_PermissionDenied data)
              else if status = Some 400 then L_Reply 400 (L_InvalidRequest data)
              else L_Reply 502 (L_FailedToConnect (err_message x) data)),
           l_after = w, l_calls = cs\<rparr>)"

definition legacyEnsureUser :: "env \<Rightarrow> string \<Rightarrow> world \<Rightarrow> js_error + (user \<times> world)" where
  "legacyEnsureUser e userId w =
     (case findUnique e userId w of
        Inl x \<Rightarrow> Inl x
      | Inr (Some u) \<Rightarrow> Inr (u, w)
      | Inr None \<Rightarrow> createUser e userId (userId @ ''@example.com'') w)"

definition legacyPayload :: "config \<Rightarrow> string \<Rightarrow> json" where
  "legacyPayload cfg userId =
     JObj (optMember ''workflow_id'' (map_option JStr (DIDIT_WORKFLOW_ID cfg))
           @ [(''vendor_data'', JStr userId),
              (''callback'', JStr (CALLBACK_URL cfg)),
              (''redirect_url_success'',
                 JStr (envStr (FRONTEND_URL cfg) @ ''/verification/success'')),
              (''redirect_url_failure'',
                 JStr (envStr (FRONTEND_URL cfg) @ ''/verification/failed'')),
              (''verification_types'',
                 JObj [(''id_verification'', JBool True),
                       (''phone_verification'', JBool True),
                       (''liveness_check'', JBool True)])])"

definition legacyAccepted ::
  "env \<Rightarrow> string \<Rightarrow> user \<Rightarrow> json \<Rightarrow> provider_call list \<Rightarrow> world \<Rightarrow> legacy_outcome" where
  "legacyAccepted e userId u d cs w =
     (if d = JNull then legacyCaught TypeError w cs
      else
        case updateUser e UpdateRetries (Some (JStr userId))
               (noUpdate\<lparr>d_verificationRetries := Some (verificationRetries u + 1),
                          d_lastVerificationAttempt := Some (now e)\<rparr>) w of
          Inl x \<Rightarrow> legacyCaught x w cs
        | Inr w1 \<Rightarrow>
            (let sid = getProp ''session_id'' (Some d);
                 entry = JSON_stringify (JObj
                   [(''userId'', JStr userId),
                    (''correlationId'', JStr (correlationId e)),
                    (''initiatedAt'', JNum (int (now e)))]);
                 w2 = (case redisSet e SetSession (''didit:session:'' @ toStringJS sid)
                              entry 3600 w1 of
                         Inl _ \<Rightarrow> w1
                       | Inr w' \<Rightarrow> w')
             in \<lparr>l_reply = L_Reply 201 (L_SessionCreated sid (getProp ''url'' (Some d)) 3600
                               (verificationRetries u + 1)
                               (MAX_RETRIES - (verificationRetries u + 1))),
                  l_after = w2, l_calls = cs\<rparr>))"

text \<open>The handler behind the rate limiter; \<open>errs\<close> is \<open>validationResult(req)\<close> and \<open>userId\<close>
  is \<open>req.body.userId\<close>.\<close>

definition initiateDiditVerification ::
  "config \<Rightarrow> env \<Rightarrow> string list \<Rightarrow> string \<Rightarrow> world \<Rightarrow> legacy_outcome" where
  "initiateDiditVerification cfg e errs userId w =
     (if errs \<noteq> []
      then \<lparr>l_reply = L_Reply 400 (L_ValidationFailed errs), l_after = w, l_calls = []\<rparr>
      else
        case legacyEnsureUser e userId w of
          Inl x \<Rightarrow> legacyCaught x w []
        | Inr (u, w1) \<Rightarrow>
            if verificationRetries u \<ge> MAX_RETRIES
            then \<lparr>l_reply = L_Reply 429 (L_MaxAttemptsExceeded (verificationRetries u)
                                           MAX_RETRIES),
                  l_after = w1, l_calls = []\<rparr>
            else if kycStatus u = ''VERIFIED''
            then \<lparr>l_reply = L_Reply 200 (L_AlreadyVerified (idVerified u) (phoneVerified u)
                                           (kycStatus u)),
                  l_after = w1, l_calls = []\<rparr>
            else
              (case provider e of
                 Inl x \<Rightarrow> legacyCaught x w1 [PostSession (legacyPayload cfg userId)]
               | Inr d \<Rightarrow>
                   legacyAccepted e userId u d [PostSession (legacyPayload cfg userId)] w1))"

subsection \<open>POST /api/v1/didit/webhook\<close>

text \<open>
  \<open>verifyDiditSignature(payload, signature)\<close>.  \<open>crypto.createHmac\<close> throws on a key that is
  \<open>undefined\<close>, \<open>Buffer.from\<close> throws on \<open>undefined\<close>, and \<open>crypto.timingSafeEqual\<close> throws on
  buffers of different lengths; nothing here catches.
\<close>

definition verifyDiditSignature ::
  "(string \<Rightarrow> string \<Rightarrow> string) \<Rightarrow> config \<Rightarrow> json \<Rightarrow> string option \<Rightarrow> js_error + bool" where
  "verifyDiditSignature H cfg payload signature =
     (case DIDIT_WEBHOOK_SECRET cfg of
        None \<Rightarrow> Inl TypeError
      | Some key \<Rightarrow>
          (let digest = H key (JSON_stringify payload)
           in case signature of
                None \<Rightarrow> Inl TypeError
              | Some sg \<Rightarrow> timingSafeEqual sg digest))"

text \<open>\<open>updateUserVerificationStatus(userId, status, details)\<close>.\<close>

definition legacyUpdateData :: "nat \<Rightarrow> json option \<Rightarrow> json \<Rightarrow> update_data" where
  "legacyUpdateData t status details =
     (let vd = getProp ''verification_data'' (Some details);
          verificationData = (if truthy vd then vd else Some (JObj []));
          idv = getProp ''id_verification'' verificationData;
          pv = getProp ''phone_verification'' verificationData;
          pn = getProp ''phone_number'' pv
      in noUpdate
           \<lparr>d_kycStatus := Some (if status = Some (JStr ''completed'')
                                 then ''VERIFIED'' else ''FAILED''),
            d_kycProvider := Some ''DIDIT'',
            d_kycCompletedAt := Some (if status = Some (JStr ''completed'')
                                      then Some t else None),
            d_kycDetails := Some (JSON_stringify details),
            d_idVerified := Some (getProp ''status'' idv = Some (JStr ''verified'')),
            d_phoneVerified := Some (getProp ''status'' pv = Some (JStr ''verified'')),
            d_phoneNumber := (if truthy pn then pn else Some JNull)\<rparr>)"

definition updateUserVerificationStatus ::
  "env \<Rightarrow> json option \<Rightarrow> json option \<Rightarrow> json \<Rightarrow> world \<Rightarrow> js_error + world" where
  "updateUserVerificationStatus e userId status details w =
     updateUser e UpdateStatus userId (legacyUpdateData (now e) status details) w"

text \<open>The legacy \<open>triggerPostVerificationActions(userId)\<close> has no \<open>try/catch\<close> of its own.\<close>

definition legacyPostVerificationActions ::
  "env \<Rightarrow> json option \<Rightarrow> world \<Rightarrow> js_error + world" where
  "legacyPostVerificationActions e userId w =
     updateUser e UpdateTrading userId (noUpdate\<lparr>d_tradingEnabled := Some True\<rparr>) w"

text \<open>
  The \<open>try\<close> block of \<open>diditWebhookHandler\<close>; on a throw the state reached so far stays,
  and the reply is the same acknowledgement.  The correlation id read from Redis is only
  logged.
\<close>

definition legacyProcess :: "env \<Rightarrow> json \<Rightarrow> world \<Rightarrow> world" where
  "legacyProcess e payload w =
     (let sid = getProp ''session_id'' (Some payload);
          status = getProp ''status'' (Some payload);
          userId = getProp ''vendor_data'' (Some payload)
      in case updateUserVerificationStatus e userId status payload w of
           Inl _ \<Rightarrow> w
         | Inr w1 \<Rightarrow>
             (let w2 = (case redisDel e (sessionKey sid) w1 of Inl _ \<Rightarrow> w1 | Inr w' \<Rightarrow> w')
              in if status = Some (JStr ''completed'')
                 then (case legacyPostVerificationActions e userId w2 of
                         Inl _ \<Rightarrow> w2
                       | Inr w3 \<Rightarrow> w3)
                 else w2))"

definition diditWebhookHandler ::
  "(string \<Rightarrow> string \<Rightarrow> string) \<Rightarrow> config \<Rightarrow> env \<Rightarrow> webhook_req \<Rightarrow> world \<Rightarrow> legacy_outcome" where
  "diditWebhookHandler H cfg e r w =
     (case verifyDiditSignature H cfg (bodyValue (wh_body r)) (wh_signature r) of
        Inl x \<Rightarrow> \<lparr>l_reply = L_Uncaught x, l_after = w, l_calls = []\<rparr>
      | Inr ok \<Rightarrow>
          if \<not> ok then \<lparr>l_reply = L_Reply 401 L_InvalidSignature, l_after = w, l_calls = []\<rparr>
          else \<lparr>l_reply = L_Reply 200 L_Received,
                l_after = legacyProcess e (bodyValue (wh_body r)) w, l_calls = []\<rparr>)"

section \<open>Concrete inputs\<close>

text \<open>
  The theorems below hold for every digest function \<open>H\<close>.  Closed examples need one;
  \<open>exampleDigest\<close> stands in for HMAC-SHA256 there and is used for nothing else.
\<close>

definition exampleDigest :: "string \<Rightarrow> string \<Rightarrow> string" where
  "exampleDigest key msg = key @ '':'' @ msg"

definition cfg0 :: config where
  "cfg0 = \<lparr>DIDIT_API_KEY = Some ''api-key'', DIDIT_WORKFLOW_ID = Some ''wf-1'',
           DIDIT_WEBHOOK_SECRET = Some ''whsec'', APP_URL = Some ''https://app.example'',
           FRONTEND_URL = Some ''https://front.example''\<rparr>"

definition sessionData :: json where
  "sessionData = JObj [(''session_id'', JStr ''s1''), (''session_number'', JNum 7),
                       (''session_token'', JStr ''tok''), (''url'', JStr ''https://v.example/s1''),
                       (''status'', JStr ''Not Started'')]"

text \<open>A request environment at time \<open>t\<close> in which nothing fails.\<close>

definition quiet :: "nat \<Rightarrow> env" where
  "quiet t = \<lparr>now = t, correlationId = ''c1'', provider = Inr sessionData,
              dbFault = (\<lambda>_. None), redisFault = (\<lambda>_. None)\<rparr>"

definition redisDown :: "redis_call \<Rightarrow> js_error option" where
  "redisDown c = Some (plainError ''The client is closed'')"

definition upstreamError :: "int \<Rightarrow> js_error" where
  "upstreamError s =
     \<lparr>err_response = Some \<lparr>resp_status = s, resp_data = Some (JObj [(''detail'', JStr ''no'')]),
                             retry_after = Some ''30''\<rparr>,
      err_message = ''Request failed''\<rparr>"

definition emptyWorld :: world where
  "emptyWorld = \<lparr>users = Map.empty, cache = Map.empty\<rparr>"

definition uid1 :: string where
  "uid1 = ''7c9e6679-7425-40de-944b-e07fc1f90ae7''"

definition sessionReq :: session_req where
  "sessionReq = \<lparr>sr_errors = [], sr_userId = uid1, sr_contactDetails = None,
                  sr_expectedDetails = None, sr_metadata = None\<rparr>"

definition phoneReq :: phone_req where
  "phoneReq = \<lparr>pr_errors = [], pr_phone_number = Some ''+15551234567'',
                pr_phoneNumber = None, pr_userId = Some uid1\<rparr>"

text \<open>A row with the given status and attempt counter, and the table holding only it.\<close>

definition rowWith :: "string \<Rightarrow> int \<Rightarrow> user" where
  "rowWith st n = (newUser uid1 (uid1 @ ''@example.com''))\<lparr>kycStatus := st, verificationRetries := n\<rparr>"

definition worldWith :: "user \<Rightarrow> world" where
  "worldWith u = \<lparr>users = [id_col u \<mapsto> u], cache = Map.empty\<rparr>"

text \<open>The webhook of the specification's scenario, signed over \<open>JSON.stringify(req.body)\<close>.\<close>

definition approvedDecision :: json where
  "approvedDecision =
     JObj [(''id_verification'', JObj [(''status'', JStr ''Approved'')]),
           (''phone_verification'',
              JObj [(''status'', JStr ''Approved''), (''phone_number'', JStr ''+15551234567'')])]"

definition approvedBody :: parsed_body where
  "approvedBody =
     ObjectBody [(''session_id'', JStr ''s1''), (''status'', JStr ''Approved''),
                 (''vendor_data'', JStr uid1), (''webhook_type'', JStr ''status.updated''),
                 (''decision'', approvedDecision)]"

definition approvedReq :: webhook_req where
  "approvedReq =
     \<lparr>wireBytes = JSON_stringify (bodyValue approvedBody), wh_body = approvedBody,
      wh_signature = Some (exampleDigest ''whsec'' (JSON_stringify (bodyValue approvedBody)))\<rparr>"

text \<open>A webhook whose bytes on the wire have a space after the colon, signed over those
  bytes.\<close>

definition spacedReq :: webhook_req where
  \<open>spacedReq =
     \<lparr>wireBytes = ''{"status": "Approved"}'',
      wh_body = ObjectBody [(''status'', JStr ''Approved'')],
      wh_signature = Some (exampleDigest ''whsec'' ''{"status": "Approved"}'')\<rparr>\<close>

text \<open>A webhook with no \<open>x-didit-signature\<close> header.\<close>

definition unsignedReq :: webhook_req where
  \<open>unsignedReq = \<lparr>wireBytes = ''{}'', wh_body = ObjectBody [], wh_signature = None\<rparr>\<close>

text \<open>The status code of a reply, if one was written.\<close>

definition replyStatus :: "reply \<Rightarrow> nat option" where
  "replyStatus r = (case r of Reply st _ \<Rightarrow> Some st | Uncaught _ \<Rightarrow> None)"

text \<open>Three session-creation requests in a row for a user who is not known yet.\<close>

definition attempt1 :: outcome where
  "attempt1 = createVerificationSession cfg0 (quiet 100) sessionReq emptyWorld"

definition attempt2 :: outcome where
  "attempt2 = createVerificationSession cfg0 (quiet 200) sessionReq (after attempt1)"

definition attempt3 :: outcome where
  "attempt3 = createVerificationSession cfg0 (quiet 300) sessionReq (after attempt2)"

text \<open>A verified row that echoes a phone number.\<close>

definition phoneRow :: user where
  "phoneRow = (rowWith ''VERIFIED'' 1)\<lparr>phoneNumber := Some ''+15551234567''\<rparr>"

text \<open>One delivery of the approved webhook at time 100 to a pending user, and a second
  delivery of the same webhook at time 200.\<close>

definition pendingWorld :: world where
  "pendingWorld = worldWith (rowWith ''PENDING'' 1)"

definition deliveredOnce :: world where
  "deliveredOnce = after (handleWebhook exampleDigest cfg0 (quiet 100) approvedReq pendingWorld)"

definition deliveredTwice :: world where
  "deliveredTwice = after (handleWebhook exampleDigest cfg0 (quiet 200) approvedReq deliveredOnce)"

text \<open>Environments in which the provider answers 429, and in which every Redis call
  fails.\<close>

definition providerDown :: env where
  "providerDown = (quiet 100)\<lparr>provider := Inl (upstreamError 429)\<rparr>"

definition cacheDown :: env where
  "cacheDown = (quiet 100)\<lparr>redisFault := redisDown\<rparr>"

section \<open>Net effect of one webhook on a row\<close>

text \<open>
  What \<open>handleWebhook\<close> leaves in the row of \<open>vendor_data\<close> when the signature verifies and
  no database call fails, written as a function of the row (lemma \<open>deliver_row\<close> below
  proves that this is the handler's effect).  \<open>tradingRow\<close> is the effect of
  \<open>triggerPostVerificationActions\<close> under its guard.
\<close>

definition tradingRow :: "json \<Rightarrow> user \<Rightarrow> user" where
  "tradingRow p u =
     (if getProp ''status'' (Some p) = Some (JStr ''Approved'')
         \<and> truthy (getProp ''decision'' (Some p))
      then u\<lparr>tradingEnabled := True\<rparr> else u)"

definition rowAfterWebhook :: "nat \<Rightarrow> json \<Rightarrow> user \<Rightarrow> user" where
  "rowAfterWebhook t p u =
     (let st = getProp ''status'' (Some p);
          dec = getProp ''decision'' (Some p);
          kind = getProp ''webhook_type'' (Some p)
      in if kind = Some (JStr ''status.updated'')
         then (if validData (statusUpdateData t st dec)
               then tradingRow p (applyUpdate (statusUpdateData t st dec) u) else u)
         else if kind = Some (JStr ''data.updated'')
         then (case dec of
                 Some dv \<Rightarrow>
                   if truthy dec
                   then tradingRow p
                          (applyUpdate (noUpdate\<lparr>d_kycDetails := Some (JSON_stringify dv)\<rparr>) u)
                   else tradingRow p u
               | None \<Rightarrow> tradingRow p u)
         else tradingRow p u)"

section \<open>Signature verification\<close>

lemma verifyWebhookSignature_iff:
  "verifyWebhookSignature H cfg m sig =
     (\<exists>sg key. sig = Some sg \<and> DIDIT_WEBHOOK_SECRET cfg = Some key \<and> sg \<noteq> [] \<and> key \<noteq> []
        \<and> sg = H key m)"
  by (auto simp: verifyWebhookSignature_def timingSafeEqual_def split: option.splits)

lemma approvedReq_verifies:
  "verifyWebhookSignature exampleDigest cfg0 (rawBody approvedReq) (wh_signature approvedReq)"
  by (simp add: verifyWebhookSignature_iff approvedReq_def rawBody_def cfg0_def exampleDigest_def)

lemma unsignedReq_rejected:
  "\<not> verifyWebhookSignature H cfg (rawBody unsignedReq) (wh_signature unsignedReq)"
  by (simp add: verifyWebhookSignature_iff unsignedReq_def)

lemma approvedReq_legacy_verifies:
  "verifyDiditSignature exampleDigest cfg0 (bodyValue (wh_body approvedReq))
     (wh_signature approvedReq) = Inr True"
  by (simp add: verifyDiditSignature_def timingSafeEqual_def cfg0_def approvedReq_def)

text \<open>
  C1, as stated, has the digest computed over the exact bytes of the request body.  The
  handler computes it over \<open>JSON.stringify(req.body)\<close>, the parsed body serialised again:
  for a body that arrived as \<open>{"status": "Approved"}\<close> the message that is hashed differs
  from the bytes received, and a signature made over the received bytes is answered with
  401.
\<close>

theorem raw_body_counterexample:
  "rawBody spacedReq \<noteq> wireBytes spacedReq
   \<and> wh_signature spacedReq = Some (exampleDigest ''whsec'' (wireBytes spacedReq))
   \<and> reply (handleWebhook exampleDigest cfg0 (quiet 100) spacedReq emptyWorld)
       = Reply 401 InvalidSignature"
  by (simp add: handleWebhook_def verifyWebhookSignature_def timingSafeEqual_def rawBody_def
        spacedReq_def quoteJSONString_def escapeChar_def cfg0_def exampleDigest_def)

text \<open>
  C1, amended: the digest is HMAC-SHA256 with the shared secret over the serialisation
  \<open>JSON.stringify(req.body)\<close> of the parsed body; the request passes exactly when the
  secret and the signature header are both present and non-empty and the header equals
  that digest (\<open>crypto.timingSafeEqual\<close>, whose exception on unequal lengths is caught and
  counts as a mismatch); in every other case the reply is 401 \<open>Invalid signature\<close> and
  neither the user table nor the cache changes, and no provider call is made.
\<close>

theorem webhook_signature_gate:
  "(verifyWebhookSignature H cfg (rawBody r) (wh_signature r) \<longleftrightarrow>
      (\<exists>sg key. wh_signature r = Some sg \<and> DIDIT_WEBHOOK_SECRET cfg = Some key
         \<and> sg \<noteq> [] \<and> key \<noteq> [] \<and> sg = H key (JSON_stringify (bodyValue (wh_body r)))))
   \<and> (\<not> verifyWebhookSignature H cfg (rawBody r) (wh_signature r) \<longrightarrow>
        handleWebhook H cfg e r w = \<lparr>reply = Reply 401 InvalidSignature, after = w, calls = []\<rparr>)"
  by (simp add: verifyWebhookSignature_iff handleWebhook_def rawBody_def)

theorem webhook_signature_gate_witness:
  "\<not> verifyWebhookSignature exampleDigest cfg0 (rawBody unsignedReq) (wh_signature unsignedReq)
   \<and> handleWebhook exampleDigest cfg0 (quiet 100) unsignedReq (worldWith phoneRow)
       = \<lparr>reply = Reply 401 InvalidSignature, after = worldWith phoneRow, calls = []\<rparr>"
  using webhook_signature_gate [where H = exampleDigest and cfg = cfg0 and r = unsignedReq
          and e = "quiet 100" and w = "worldWith phoneRow"]
  by (simp add: unsignedReq_def)

section \<open>The webhook is always acknowledged\<close>

lemma approvedReq_throws:
  "processWebhook (quiet 100) (bodyValue (wh_body approvedReq)) emptyWorld = Inl RecordNotFound"
  by (simp add: processWebhook_def dispatchWebhook_def approvedReq_def approvedBody_def
        handleStatusUpdate_def updateUser_def quiet_def emptyWorld_def Let_def
        statusUpdateData_def approvedDecision_def uid1_def noUpdate_def)

text \<open>
  C6: a webhook whose signature verifies is answered with 200 and an acknowledgement,
  \<open>{received: true}\<close> when processing went through and \<open>{received: true, error}\<close> when it
  threw; a webhook whose signature does not verify is answered with 401, so a reply other
  than 200 is given to those requests only.  The same holds of the legacy handler
  \<open>diditWebhookHandler\<close>: 200 whenever \<open>verifyDiditSignature\<close> returns true, and a reply
  other than 200 only when it returns false.
\<close>

theorem webhook_always_acknowledged:
  "(verifyWebhookSignature H cfg (rawBody r) (wh_signature r) \<longrightarrow>
      reply (handleWebhook H cfg e r w) =
        (case processWebhook e (bodyValue (wh_body r)) w of
           Inl x \<Rightarrow> Reply 200 (Received (Some (err_message x)))
         | Inr _ \<Rightarrow> Reply 200 (Received None)))
   \<and> (\<not> verifyWebhookSignature H cfg (rawBody r) (wh_signature r) \<longrightarrow>
        reply (handleWebhook H cfg e r w) = Reply 401 InvalidSignature)
   \<and> (verifyDiditSignature H cfg (bodyValue (wh_body r)) (wh_signature r) = Inr True \<longrightarrow>
        l_reply (diditWebhookHandler H cfg e r w) = L_Reply 200 L_Received)
   \<and> (\<forall>st b. l_reply (diditWebhookHandler H cfg e r w) = L_Reply st b \<and> st \<noteq> 200 \<longrightarrow>
        verifyDiditSignature H cfg (bodyValue (wh_body r)) (wh_signature r) = Inr False)"
  by (auto simp: handleWebhook_def diditWebhookHandler_def split: sum.splits)

theorem webhook_always_acknowledged_witness:
  "verifyWebhookSignature exampleDigest cfg0 (rawBody approvedReq) (wh_signature approvedReq)
   \<and> processWebhook (quiet 100) (bodyValue (wh_body approvedReq)) emptyWorld
       = Inl RecordNotFound
   \<and> reply (handleWebhook exampleDigest cfg0 (quiet 100) approvedReq emptyWorld)
       = Reply 200 (Received (Some ''Record to update not found.''))
   \<and> reply (handleWebhook exampleDigest cfg0 (quiet 100) unsignedReq emptyWorld)
       = Reply 401 InvalidSignature
   \<and> verifyDiditSignature exampleDigest cfg0 (bodyValue (wh_body approvedReq))
        (wh_signature approvedReq) = Inr True
   \<and> l_reply (diditWebhookHandler exampleDigest cfg0 (quiet 100) approvedReq emptyWorld)
       = L_Reply 200 L_Received"
proof -
  note t = webhook_always_acknowledged [where H = exampleDigest and cfg = cfg0
             and r = approvedReq and e = "quiet 100" and w = emptyWorld]
  note u = webhook_always_acknowledged [where H = exampleDigest and cfg = cfg0
             and r = unsignedReq and e = "quiet 100" and w = emptyWorld]
  have a: "reply (handleWebhook exampleDigest cfg0 (quiet 100) approvedReq emptyWorld) =
        (case processWebhook (quiet 100) (bodyValue (wh_body approvedReq)) emptyWorld of
           Inl x \<Rightarrow> Reply 200 (Received (Some (err_message x)))
         | Inr _ \<Rightarrow> Reply 200 (Received None))"
    using t approvedReq_verifies by blast
  have a': "reply (handleWebhook exampleDigest cfg0 (quiet 100) approvedReq emptyWorld)
       = Reply 200 (Received (Some ''Record to update not found.''))"
    unfolding a approvedReq_throws by (simp add: RecordNotFound_def plainError_def)
  have b: "reply (handleWebhook exampleDigest cfg0 (quiet 100) unsignedReq emptyWorld)
       = Reply 401 InvalidSignature"
    using u unsignedReq_rejected by blast
  have c: "l_reply (diditWebhookHandler exampleDigest cfg0 (quiet 100) approvedReq emptyWorld)
       = L_Reply 200 L_Received"
    using t approvedReq_legacy_verifies by blast
  show ?thesis
    using approvedReq_verifies approvedReq_throws a' b approvedReq_legacy_verifies c
    by (intro conjI)
qed

section \<open>Masking of phone numbers\<close>

text \<open>
  C9: for every phone number that a reply echoes (a non-empty string; \<open>GET /status\<close> sends
  \<open>null\<close> for a row without one), \<open>maskPhoneNumber\<close> returns \<open>***\<close> followed by the last
  four characters when the number is longer than four characters, and the number itself
  when its length is four or less; \<open>getUserVerificationStatus\<close> sends exactly that value.
\<close>

theorem maskPhoneNumber_masks:
  "p \<noteq> [] \<Longrightarrow>
     maskPhoneNumber (Some p)
       = Some (if length p > 4 then ''***'' @ drop (length p - 4) p else p)
     \<and> (length p > 4 \<longrightarrow>
           length (drop (length p - 4) p) = 4 \<and> (\<exists>pre. p = pre @ drop (length p - 4) p))
     \<and> (users w i = Some u \<and> phoneNumber u = Some p \<and> dbFault e FindUser = None \<longrightarrow>
           (\<exists>v. getUserVerificationStatus e i w = Reply 200 (StatusBody v)
                \<and> sv_phoneNumber v = maskPhoneNumber (Some p)))"
proof -
  assume ne: "p \<noteq> []"
  have a: "maskPhoneNumber (Some p)
       = Some (if length p > 4 then ''***'' @ drop (length p - 4) p else p)"
    using ne by (simp add: maskPhoneNumber_def)
  have b: "length p > 4 \<longrightarrow>
           length (drop (length p - 4) p) = 4 \<and> (\<exists>pre. p = pre @ drop (length p - 4) p)"
  proof
    assume "length p > 4"
    then have "length (drop (length p - 4) p) = 4" by simp
    moreover have "p = take (length p - 4) p @ drop (length p - 4) p" by simp
    ultimately show "length (drop (length p - 4) p) = 4 \<and> (\<exists>pre. p = pre @ drop (length p - 4) p)"
      by blast
  qed
  have c: "users w i = Some u \<and> phoneNumber u = Some p \<and> dbFault e FindUser = None \<longrightarrow>
           (\<exists>v. getUserVerificationStatus e i w = Reply 200 (StatusBody v)
                \<and> sv_phoneNumber v = maskPhoneNumber (Some p))"
    using ne by (simp add: getUserVerificationStatus_def findUnique_def)
  show ?thesis using a b c by (intro conjI)
qed

lemma phoneRow_facts:
  "users (worldWith phoneRow) uid1 = Some phoneRow \<and> phoneNumber phoneRow = Some ''+15551234567''
   \<and> dbFault (quiet 100) FindUser = None"
  by (simp add: worldWith_def phoneRow_def rowWith_def newUser_def quiet_def)

theorem maskPhoneNumber_masks_witness:
  "''+15551234567'' \<noteq> []
   \<and> maskPhoneNumber (Some ''+15551234567'') = Some ''***4567''
   \<and> maskPhoneNumber (Some ''1234'') = Some ''1234''
   \<and> (\<exists>v. getUserVerificationStatus (quiet 100) uid1 (worldWith phoneRow)
              = Reply 200 (StatusBody v)
            \<and> sv_phoneNumber v = Some ''***4567'')"
proof -
  have ne: "''+15551234567'' \<noteq> []" by simp
  note long = maskPhoneNumber_masks [OF ne, where w = "worldWith phoneRow" and i = uid1
                and u = phoneRow and e = "quiet 100"]
  have ne4: "''1234'' \<noteq> []" by simp
  note short = maskPhoneNumber_masks [OF ne4, where w = "worldWith phoneRow" and i = uid1
                and u = phoneRow and e = "quiet 100"]
  have m: "maskPhoneNumber (Some ''+15551234567'') = Some ''***4567''"
    using long by simp
  have s: "maskPhoneNumber (Some ''1234'') = Some ''1234''"
    using short by simp
  have "\<exists>v. getUserVerificationStatus (quiet 100) uid1 (worldWith phoneRow)
              = Reply 200 (StatusBody v)
            \<and> sv_phoneNumber v = maskPhoneNumber (Some ''+15551234567'')"
    using long phoneRow_facts by blast
  then show ?thesis using ne m s by simp
qed

section \<open>Mapping of provider errors\<close>

text \<open>
  C8, as stated, has an upstream 401 mapped to the authentication error of the taxonomy,
  a local 401.  \<open>handleDiditApiError\<close> answers an upstream 401 with a local 500.
\<close>

theorem upstream_401_counterexample:
  "replyStatus (handleDiditApiError (upstreamError 401)) = Some 500
   \<and> replyStatus (handleDiditApiError (upstreamError 401)) \<noteq> Some 401"
  by (simp add: handleDiditApiError_def upstreamError_def replyStatus_def)

lemma calls_createVerificationSession:
  "length (calls (createVerificationSession cfg e r w)) \<le> 1"
  by (simp add: createVerificationSession_def caught_def sessionAccepted_def Let_def
        split: sum.splits option.splits prod.splits)

lemma calls_sendPhoneVerificationCode:
  "length (calls (sendPhoneVerificationCode e r w)) \<le> 1"
  by (simp add: sendPhoneVerificationCode_def caught_def phoneAccepted_def Let_def
        split: sum.splits option.splits prod.splits)

text \<open>
  C8, amended: \<open>handleDiditApiError\<close> maps the failure of a provider call to exactly one
  local reply: upstream 400 to 400, upstream 429 to 429 with the \<open>retry-after\<close> header,
  upstream 404 to 404, upstream 403 to a 500 permission error, upstream 401 to a 500
  \<open>Authentication failed\<close> error (the API key of the server is wrong, not the caller's
  credentials), and anything else, a failure without a response included, to 502; the
  handlers make at most one provider call per request, so nothing is retried.
\<close>

theorem provider_error_mapping:
  "(err_response x = Some r \<and> resp_status r = 400 \<longrightarrow>
      handleDiditApiError x = Reply 400 (InvalidRequest (resp_data r)))
   \<and> (err_response x = Some r \<and> resp_status r = 429 \<longrightarrow>
      handleDiditApiError x = Reply 429 (RateLimitExceeded (retry_after r)))
   \<and> (err_response x = Some r \<and> resp_status r = 404 \<longrightarrow>
      handleDiditApiError x = Reply 404 ResourceNotFound)
   \<and> (err_response x = Some r \<and> resp_status r = 403 \<longrightarrow>
      handleDiditApiError x = Reply 500 (PermissionDenied (resp_data r)))
   \<and> (err_response x = Some r \<and> resp_status r = 401 \<longrightarrow>
      handleDiditApiError x = Reply 500 AuthenticationFailed)
   \<and> (err_response x = None
        \<or> (err_response x = Some r \<and> resp_status r \<notin> {400, 401, 403, 404, 429}) \<longrightarrow>
      handleDiditApiError x = Reply 502 (ServiceUnavailable (err_message x)))
   \<and> length (calls (createVerificationSession cfg e sr w)) \<le> 1
   \<and> length (calls (sendPhoneVerificationCode e pr w)) \<le> 1"
  using calls_createVerificationSession [of cfg e sr w]
        calls_sendPhoneVerificationCode [of e pr w]
  by (auto simp add: handleDiditApiError_def)

lemma upstreamError_response:
  "err_response (upstreamError s)
     = Some \<lparr>resp_status = s, resp_data = Some (JObj [(''detail'', JStr ''no'')]),
              retry_after = Some ''30''\<rparr>"
  by (simp add: upstreamError_def)


theorem provider_error_mapping_witness:
  "handleDiditApiError (upstreamError 400)
     = Reply 400 (InvalidRequest (Some (JObj [(''detail'', JStr ''no'')])))
   \<and> handleDiditApiError (upstreamError 429) = Reply 429 (RateLimitExceeded (Some ''30''))
   \<and> handleDiditApiError (upstreamError 404) = Reply 404 ResourceNotFound
   \<and> handleDiditApiError (upstreamError 403)
       = Reply 500 (PermissionDenied (Some (JObj [(''detail'', JStr ''no'')])))
   \<and> handleDiditApiError (upstreamError 401) = Reply 500 AuthenticationFailed
   \<and> handleDiditApiError (upstreamError 503) = Reply 502 (ServiceUnavailable ''Request failed'')
   \<and> handleDiditApiError (plainError ''timeout of 10000ms exceeded'')
       = Reply 502 (ServiceUnavailable ''timeout of 10000ms exceeded'')"
proof -
  let ?R = "\<lambda>s. \<lparr>resp_status = s, resp_data = Some (JObj [(''detail'', JStr ''no'')]),
                   retry_after = Some ''30''\<rparr>"
  note m = provider_error_mapping [where cfg = cfg0 and e = "quiet 100" and sr = sessionReq
             and pr = phoneReq and w = emptyWorld]
  have r: "\<And>s. err_response (upstreamError s) = Some (?R s)"
    by (rule upstreamError_response)
  have c400: "handleDiditApiError (upstreamError 400) = Reply 400 (InvalidRequest (resp_data (?R 400)))"
    using m [where x = "upstreamError 400" and r = "?R 400"] r [of 400] by simp
  have c429: "handleDiditApiError (upstreamError 429) = Reply 429 (RateLimitExceeded (retry_after (?R 429)))"
    using m [where x = "upstreamError 429" and r = "?R 429"] r [of 429] by simp
  have c404: "handleDiditApiError (upstreamError 404) = Reply 404 ResourceNotFound"
    using m [where x = "upstreamError 404" and r = "?R 404"] r [of 404] by simp
  have c403: "handleDiditApiError (upstreamError 403) = Reply 500 (PermissionDenied (resp_data (?R 403)))"
    using m [where x = "upstreamError 403" and r = "?R 403"] r [of 403] by simp
  have c401: "handleDiditApiError (upstreamError 401) = Reply 500 AuthenticationFailed"
    using m [where x = "upstreamError 401" and r = "?R 401"] r [of 401] by simp
  have c503: "handleDiditApiError (upstreamError 503)
                = Reply 502 (ServiceUnavailable (err_message (upstreamError 503)))"
    using m [where x = "upstreamError 503" and r = "?R 503"] r [of 503] by simp
  have cnet: "handleDiditApiError (plainError ''timeout of 10000ms exceeded'')
                = Reply 502 (ServiceUnavailable (err_message (plainError ''timeout of 10000ms exceeded'')))"
    using m [where x = "plainError ''timeout of 10000ms exceeded''" and r = "?R 0"]
    by (simp add: plainError_def)
  show ?thesis
    using c400 c429 c404 c403 c401 c503 cnet
    by (simp add: upstreamError_def plainError_def)
qed

section \<open>The legacy signature check\<close>

text \<open>
  C10 says that \<open>verifyDiditSignature\<close> returns a boolean on every input.  On a request
  without the header \<open>x-didit-signature\<close> it throws (\<open>Buffer.from(undefined)\<close>, or
  \<open>createHmac\<close> on a missing secret), nothing catches, and \<open>diditWebhookHandler\<close> writes no
  reply at all, where \<open>verifyWebhookSignature\<close> of the newer controller returns false and
  the request gets its 401.
\<close>

theorem verifyDiditSignature_throws:
  "verifyDiditSignature H cfg p None = Inl TypeError
   \<and> l_reply (diditWebhookHandler H cfg e (r\<lparr>wh_signature := None\<rparr>) w) = L_Uncaught TypeError
   \<and> handleWebhook H cfg e (r\<lparr>wh_signature := None\<rparr>) w
       = \<lparr>reply = Reply 401 InvalidSignature, after = w, calls = []\<rparr>"
  by (simp add: verifyDiditSignature_def diditWebhookHandler_def handleWebhook_def
        verifyWebhookSignature_def split: option.splits)

text \<open>A signature of another length than the digest makes it throw as well.\<close>

lemma verifyDiditSignature_length:
  "DIDIT_WEBHOOK_SECRET cfg = Some key \<Longrightarrow> length sg \<noteq> length (H key (JSON_stringify p)) \<Longrightarrow>
   verifyDiditSignature H cfg p (Some sg) = Inl RangeError"
  by (simp add: verifyDiditSignature_def timingSafeEqual_def)

section \<open>The attempt bound\<close>

lemma attempt1_row:
  "users (after attempt1) uid1
     = Some ((rowWith ''PENDING'' 1)\<lparr>lastVerificationAttempt := Some 100\<rparr>)"
  by (simp add: attempt1_def createVerificationSession_def sessionReq_def ensureUser_def
        findUnique_def quiet_def emptyWorld_def createUser_def newUser_def
        MAX_VERIFICATION_RETRIES_def sessionAccepted_def sessionData_def updateUser_def
        redisSet_def Let_def applyUpdate_def noUpdate_def rowWith_def)

lemma attempt1_reply: "replyStatus (reply attempt1) = Some 201 \<and> length (calls attempt1) = 1"
  by (simp add: attempt1_def createVerificationSession_def sessionReq_def ensureUser_def
        findUnique_def quiet_def emptyWorld_def createUser_def newUser_def
        MAX_VERIFICATION_RETRIES_def sessionAccepted_def sessionData_def updateUser_def
        redisSet_def Let_def applyUpdate_def noUpdate_def replyStatus_def)

lemma attempt2_row:
  "users (after attempt2) uid1
     = Some ((rowWith ''PENDING'' 2)\<lparr>lastVerificationAttempt := Some 200\<rparr>)"
  using attempt1_row
  by (simp add: attempt2_def createVerificationSession_def sessionReq_def ensureUser_def
        findUnique_def quiet_def MAX_VERIFICATION_RETRIES_def sessionAccepted_def
        sessionData_def updateUser_def redisSet_def Let_def applyUpdate_def noUpdate_def
        rowWith_def newUser_def)

lemma attempt2_reply: "replyStatus (reply attempt2) = Some 201 \<and> length (calls attempt2) = 1"
  using attempt1_row
  by (simp add: attempt2_def createVerificationSession_def sessionReq_def ensureUser_def
        findUnique_def quiet_def MAX_VERIFICATION_RETRIES_def sessionAccepted_def
        sessionData_def updateUser_def redisSet_def Let_def applyUpdate_def noUpdate_def
        rowWith_def newUser_def replyStatus_def)

lemma attempt3_rejected:
  "attempt3 = \<lparr>reply = Reply 429 (MaxAttemptsExceeded 2 2), after = after attempt2, calls = []\<rparr>"
  using attempt2_row
  by (simp add: attempt3_def createVerificationSession_def sessionReq_def ensureUser_def
        findUnique_def quiet_def MAX_VERIFICATION_RETRIES_def rowWith_def newUser_def)

text \<open>
  C2 gives every user three attempts in total.  The handler refuses as soon as
  \<open>verificationRetries\<close> has reached 2, and the counter counts the first attempt too: of
  three requests in a row for a new user, the first two are accepted (201, one provider
  call each) and the third is answered with 429 without a provider call, after two
  attempts used.
\<close>

theorem third_attempt_rejected:
  "replyStatus (reply attempt1) = Some 201 \<and> length (calls attempt1) = 1
   \<and> replyStatus (reply attempt2) = Some 201 \<and> length (calls attempt2) = 1
   \<and> map_option verificationRetries (users (after attempt2) uid1) = Some 2
   \<and> attempt3 = \<lparr>reply = Reply 429 (MaxAttemptsExceeded 2 2), after = after attempt2,
                   calls = []\<rparr>
   \<and> createVerificationSession cfg0 (quiet 100) sessionReq (worldWith (rowWith ''PENDING'' 2))
       = \<lparr>reply = Reply 429 (MaxAttemptsExceeded 2 2),
          after = worldWith (rowWith ''PENDING'' 2), calls = []\<rparr>"
proof -
  have r: "map_option verificationRetries (users (after attempt2) uid1) = Some 2"
    by (simp add: attempt2_row rowWith_def)
  have d: "createVerificationSession cfg0 (quiet 100) sessionReq (worldWith (rowWith ''PENDING'' 2))
       = \<lparr>reply = Reply 429 (MaxAttemptsExceeded 2 2),
          after = worldWith (rowWith ''PENDING'' 2), calls = []\<rparr>"
    by (simp add: createVerificationSession_def sessionReq_def ensureUser_def findUnique_def
          quiet_def MAX_VERIFICATION_RETRIES_def worldWith_def rowWith_def newUser_def)
  show ?thesis
    using attempt1_reply attempt2_reply r attempt3_rejected d by (intro conjI) simp_all
qed

text \<open>What does hold of the bound: a session is accepted only below it, and the counter
  is then one more than before, so it never exceeds the maximum.\<close>

lemma accepted_below_bound:
  assumes "users w (sr_userId r) = Some u"
      and "reply (createVerificationSession cfg e r w) = Reply 201 b"
  shows "verificationRetries u < MAX_VERIFICATION_RETRIES
         \<and> map_option verificationRetries
             (users (after (createVerificationSession cfg e r w)) (sr_userId r))
           = Some (verificationRetries u + 1)
         \<and> length (calls (createVerificationSession cfg e r w)) = 1"
  using assms
  by (auto simp add: createVerificationSession_def ensureUser_def findUnique_def caught_def
        handleDiditApiError_def sessionAccepted_def updateUser_def redisSet_def Let_def
        applyUpdate_def noUpdate_def
        split: if_splits sum.splits option.splits)

section \<open>Users already verified\<close>

text \<open>
  C3 holds of \<open>createVerificationSession\<close>, which looks at \<open>kycStatus\<close> before it looks at
  the counter.
\<close>

lemma verified_short_circuit:
  "users w (sr_userId r) = Some u \<Longrightarrow> kycStatus u = ''VERIFIED'' \<Longrightarrow> sr_errors r = [] \<Longrightarrow>
   dbFault e FindUser = None \<Longrightarrow>
   createVerificationSession cfg e r w
     = \<lparr>reply = Reply 200 (AlreadyVerified (idVerified u) (phoneVerified u) ''VERIFIED''
                             (kycCompletedAt u)),
        after = w, calls = []\<rparr>"
  by (simp add: createVerificationSession_def ensureUser_def findUnique_def)

text \<open>
  C3 fails on the legacy \<open>initiateDiditVerification\<close>, which has the two checks in the
  other order: a verified user who used two attempts is told 429, not that the
  verification is done.
\<close>

theorem legacy_verified_user_refused:
  "initiateDiditVerification cfg0 (quiet 100) [] uid1 (worldWith (rowWith ''VERIFIED'' 2))
     = \<lparr>l_reply = L_Reply 429 (L_MaxAttemptsExceeded 2 2),
        l_after = worldWith (rowWith ''VERIFIED'' 2), l_calls = []\<rparr>
   \<and> createVerificationSession cfg0 (quiet 100) sessionReq (worldWith (rowWith ''VERIFIED'' 2))
     = \<lparr>reply = Reply 200 (AlreadyVerified False False ''VERIFIED'' None),
        after = worldWith (rowWith ''VERIFIED'' 2), calls = []\<rparr>"
  by (simp add: initiateDiditVerification_def legacyEnsureUser_def createVerificationSession_def
        ensureUser_def sessionReq_def findUnique_def quiet_def worldWith_def rowWith_def
        newUser_def MAX_RETRIES_def)

section \<open>Effect of a webhook on the user table\<close>

lemma users_redisDel: "users (case redisDel e k w of Inl x \<Rightarrow> w | Inr w' \<Rightarrow> w') = users w"
  by (simp add: redisDel_def split: option.splits)

lemma updateUser_ok:
  "dbFault e site = None \<Longrightarrow> validData d \<Longrightarrow> users w k = Some u \<Longrightarrow>
   updateUser e site (Some (JStr k)) d w = Inr (w\<lparr>users := (users w)(k \<mapsto> applyUpdate d u)\<rparr>)"
  by (simp add: updateUser_def del: validData.simps)

lemma updateUser_invalid:
  "\<not> validData d \<Longrightarrow> \<exists>x. updateUser e site i d w = Inl x"
  by (simp add: updateUser_def del: validData.simps split: option.splits json.splits)

lemma updateUser_users:
  "updateUser e site i d w = Inr w' \<Longrightarrow>
     \<exists>k u. i = Some (JStr k) \<and> users w k = Some u \<and> validData d \<and> w' = w\<lparr>users := (users w)(k \<mapsto> applyUpdate d u)\<rparr>"
  by (auto simp add: updateUser_def simp del: validData.simps split: option.splits json.splits if_splits)

lemma users_trigger_row:
  "users w k = Some u \<Longrightarrow>
   users (triggerPostVerificationActions e (Some (JStr k)) w) =
     (users w)(k \<mapsto> u\<lparr>tradingEnabled := (dbFault e UpdateTrading = None \<or> tradingEnabled u)\<rparr>)"
  by (auto simp add: triggerPostVerificationActions_def updateUser_def applyUpdate_def noUpdate_def split: option.splits json.splits)

lemma users_trigger_none:
  "(\<forall>k u. i = Some (JStr k) \<longrightarrow> users w k = None) \<Longrightarrow>
   users (triggerPostVerificationActions e i w) = users w"
  by (auto simp add: triggerPostVerificationActions_def updateUser_def split: option.splits json.splits)

lemma finish_users:
  assumes "getProp ''vendor_data'' (Some p) = Some (JStr k)" and "users w k = Some u"
  shows "users (finishWebhook e p w) =
     (users w)(k \<mapsto> u\<lparr>tradingEnabled :=
        (getProp ''status'' (Some p) = Some (JStr ''Approved'') \<and> truthy (getProp ''decision'' (Some p))
            \<and> dbFault e UpdateTrading = None) \<or> tradingEnabled u\<rparr>)"
proof -
  let ?w2 = "if getProp ''status'' (Some p) \<in> {Some (JStr ''Approved''), Some (JStr ''Declined''), Some (JStr ''Abandoned'')}
                then (case redisDel e (sessionKey (getProp ''session_id'' (Some p))) w of Inl _ \<Rightarrow> w | Inr w' \<Rightarrow> w')
                else w"
  have u2: "users ?w2 = users w" by (simp add: users_redisDel)
  have u2k: "users ?w2 k = Some u" using assms(2) u2 by simp
  have fin: "finishWebhook e p w = (if getProp ''status'' (Some p) = Some (JStr ''Approved'') \<and> truthy (getProp ''decision'' (Some p))
         then triggerPostVerificationActions e (Some (JStr k)) ?w2 else ?w2)"
    using assms(1) by (simp add: finishWebhook_def Let_def)
  have idm: "(users w)(k \<mapsto> u\<lparr>tradingEnabled := tradingEnabled u\<rparr>) = users w"
    using assms(2) by (simp add: fun_upd_idem)
  show ?thesis
    unfolding fin using users_trigger_row[OF u2k, of e] u2 idm by auto
qed

lemma finish_users_none:
  assumes "\<forall>k. getProp ''vendor_data'' (Some p) = Some (JStr k) \<longrightarrow> users w k = None"
  shows "users (finishWebhook e p w) = users w"
proof -
  let ?w2 = "if getProp ''status'' (Some p) \<in> {Some (JStr ''Approved''), Some (JStr ''Declined''), Some (JStr ''Abandoned'')}
                then (case redisDel e (sessionKey (getProp ''session_id'' (Some p))) w of Inl _ \<Rightarrow> w | Inr w' \<Rightarrow> w')
                else w"
  have u2: "users ?w2 = users w" by (simp add: users_redisDel)
  have fin: "finishWebhook e p w = (if getProp ''status'' (Some p) = Some (JStr ''Approved'') \<and> truthy (getProp ''decision'' (Some p))
         then triggerPostVerificationActions e (getProp ''vendor_data'' (Some p)) ?w2 else ?w2)"
    by (simp add: finishWebhook_def Let_def)
  have "users (triggerPostVerificationActions e (getProp ''vendor_data'' (Some p)) ?w2) = users ?w2"
    by (rule users_trigger_none) (use assms u2 in auto)
  then show ?thesis unfolding fin using u2 by auto
qed

lemma dispatch_none:
  assumes "\<forall>k. getProp ''vendor_data'' (Some p) = Some (JStr k) \<longrightarrow> users w k = None"
  shows "dispatchWebhook e p w = Inr w' \<Longrightarrow> w' = w"
  using assms
  by (auto simp add: dispatchWebhook_def Let_def handleStatusUpdate_def handleDataUpdate_def
       split: if_splits option.splits dest!: updateUser_users)

lemma deliver_none:
  assumes "\<forall>k. getProp ''vendor_data'' (Some (bodyValue (wh_body r))) = Some (JStr k) \<longrightarrow> users w k = None"
  shows "users (after (handleWebhook H cfg e r w)) = users w"
proof (cases "dispatchWebhook e (bodyValue (wh_body r)) w")
  case (Inl x)
  then show ?thesis by (simp add: handleWebhook_def processWebhook_def Let_def)
next
  case (Inr w1)
  then have "w1 = w" using dispatch_none[OF assms] by blast
  then show ?thesis using Inr finish_users_none[OF assms]
    by (simp add: handleWebhook_def processWebhook_def Let_def)
qed

lemma deliver_row:
  assumes nf: "\<forall>c. dbFault e c = None"
      and ok: "verifyWebhookSignature H cfg (rawBody r) (wh_signature r)"
      and vd: "getProp ''vendor_data'' (Some (bodyValue (wh_body r))) = Some (JStr k)"
      and row: "users w k = Some u"
  shows "users (after (handleWebhook H cfg e r w)) =
           (users w)(k \<mapsto> rowAfterWebhook (now e) (bodyValue (wh_body r)) u)"
proof -
  let ?p = "bodyValue (wh_body r)"
  let ?st = "getProp ''status'' (Some ?p)"
  let ?dec = "getProp ''decision'' (Some ?p)"
  let ?kind = "getProp ''webhook_type'' (Some ?p)"
  let ?d = "statusUpdateData (now e) ?st ?dec"
  have aft: "after (handleWebhook H cfg e r w) =
      (case dispatchWebhook e ?p w of Inl x \<Rightarrow> w | Inr w1 \<Rightarrow> finishWebhook e ?p w1)"
    using ok by (simp add: handleWebhook_def processWebhook_def Let_def split: sum.splits)
  have tr: "\<And>(w1::world) u1. users w1 k = Some u1 \<Longrightarrow> users (finishWebhook e ?p w1) = (users w1)(k \<mapsto> tradingRow ?p u1)"
  proof -
    fix w1 :: world and u1 assume a: "users w1 k = Some u1"
    have "(users w1)(k \<mapsto> u1) = users w1" using a by (simp add: fun_upd_idem)
    then show "users (finishWebhook e ?p w1) = (users w1)(k \<mapsto> tradingRow ?p u1)"
      using finish_users[OF vd a, of e] nf by (auto simp: tradingRow_def)
  qed
  have same: "(users w)(k \<mapsto> u) = users w" using row by (simp add: fun_upd_idem)
  consider (su) "?kind = Some (JStr ''status.updated'')" "validData ?d"
    | (sbad) "?kind = Some (JStr ''status.updated'')" "\<not> validData ?d"
    | (du) dv where "?kind = Some (JStr ''data.updated'')" "?dec = Some dv" "truthy ?dec"
    | (dn) "?kind = Some (JStr ''data.updated'')" "\<not> truthy ?dec"
    | (other) "?kind \<noteq> Some (JStr ''status.updated'')" "?kind \<noteq> Some (JStr ''data.updated'')"
    by (cases "?dec") auto
  then show ?thesis
  proof cases
    case su
    have "dispatchWebhook e ?p w = Inr (w\<lparr>users := (users w)(k \<mapsto> applyUpdate ?d u)\<rparr>)"
      using su vd updateUser_ok[of e UpdateStatus ?d w k u] nf row
      by (simp add: dispatchWebhook_def Let_def handleStatusUpdate_def del: validData.simps)
    then show ?thesis unfolding aft using su tr[of "w\<lparr>users := (users w)(k \<mapsto> applyUpdate ?d u)\<rparr>" "applyUpdate ?d u"]
      by (simp add: rowAfterWebhook_def Let_def del: validData.simps)
  next
    case sbad
    obtain x where "dispatchWebhook e ?p w = Inl x"
      using sbad updateUser_invalid[of ?d e UpdateStatus "Some (JStr k)" w] vd
      by (auto simp add: dispatchWebhook_def Let_def handleStatusUpdate_def simp del: validData.simps)
    then show ?thesis unfolding aft using sbad same
      by (simp add: rowAfterWebhook_def Let_def del: validData.simps)
  next
    case du
    let ?dd = "noUpdate\<lparr>d_kycDetails := Some (JSON_stringify dv)\<rparr>"
    have v: "validData ?dd" by (simp add: noUpdate_def)
    have "dispatchWebhook e ?p w = Inr (w\<lparr>users := (users w)(k \<mapsto> applyUpdate ?dd u)\<rparr>)"
      using du vd updateUser_ok[OF _ v row, of e UpdateData] nf
      by (simp add: dispatchWebhook_def Let_def handleDataUpdate_def del: validData.simps)
    then show ?thesis unfolding aft using du tr[of "w\<lparr>users := (users w)(k \<mapsto> applyUpdate ?dd u)\<rparr>" "applyUpdate ?dd u"]
      by (simp add: rowAfterWebhook_def Let_def del: validData.simps)
  next
    case dn
    have "dispatchWebhook e ?p w = Inr w"
      using dn by (auto simp add: dispatchWebhook_def Let_def handleDataUpdate_def split: option.splits)
    then show ?thesis unfolding aft using dn tr[OF row]
      by (auto simp add: rowAfterWebhook_def Let_def split: option.splits)
  next
    case other
    have "dispatchWebhook e ?p w = Inr w"
      using other by (simp add: dispatchWebhook_def Let_def)
    then show ?thesis unfolding aft using other tr[OF row]
      by (simp add: rowAfterWebhook_def Let_def)
  qed
qed


lemma statusUpdateData_time:
  "statusUpdateData t st dec =
     (statusUpdateData 0 st dec)\<lparr>d_kycCompletedAt :=
        (if st = Some (JStr ''Approved'') then Some (Some t) else None)\<rparr>"
  by (simp add: statusUpdateData_def Let_def noUpdate_def split: option.splits)

lemma statusUpdateData_trading: "d_tradingEnabled (statusUpdateData t st dec) = None"
  by (simp add: statusUpdateData_def Let_def noUpdate_def split: option.splits)

lemma validData_time: "validData (statusUpdateData t st dec) = validData (statusUpdateData 0 st dec)"
  by (subst statusUpdateData_time) simp

lemma applyUpdate_twice:
  "(c2 = None \<longrightarrow> c1 = None) \<Longrightarrow>
   applyUpdate (d\<lparr>d_kycCompletedAt := c2\<rparr>) (applyUpdate (d\<lparr>d_kycCompletedAt := c1\<rparr>) u) =
   applyUpdate (d\<lparr>d_kycCompletedAt := c2\<rparr>) u"
  by (rule user.equality) (auto simp add: applyUpdate_def split: option.splits json.splits)

lemma applyUpdate_idem: "applyUpdate d (applyUpdate d u) = applyUpdate d u"
  by (rule user.equality) (auto simp add: applyUpdate_def split: option.splits json.splits)

lemma applyUpdate_trading:
  "d_tradingEnabled d = None \<Longrightarrow>
   applyUpdate d (u\<lparr>tradingEnabled := b\<rparr>) = (applyUpdate d u)\<lparr>tradingEnabled := b\<rparr>"
  by (rule user.equality) (auto simp add: applyUpdate_def split: option.splits json.splits)

lemma applyUpdate_completed:
  "(applyUpdate (d\<lparr>d_kycCompletedAt := c\<rparr>) u)\<lparr>kycCompletedAt := x\<rparr> =
   (applyUpdate (d\<lparr>d_kycCompletedAt := c'\<rparr>) u)\<lparr>kycCompletedAt := x\<rparr>"
  by (rule user.equality) (auto simp add: applyUpdate_def split: option.splits json.splits)

lemma statusUpdate_twice:
  "applyUpdate (statusUpdateData t2 st dec) (applyUpdate (statusUpdateData t1 st dec) u) =
   applyUpdate (statusUpdateData t2 st dec) u"
  by (subst (1 2 3) statusUpdateData_time) (rule applyUpdate_twice, simp)

lemma tradingRow_applyUpdate:
  "d_tradingEnabled d = None \<Longrightarrow> applyUpdate d (tradingRow p u) = tradingRow p (applyUpdate d u)"
  by (simp add: tradingRow_def applyUpdate_trading)

lemma tradingRow_idem: "tradingRow p (tradingRow p u) = tradingRow p u"
  by (simp add: tradingRow_def)

lemma row_last_write:
  "rowAfterWebhook t2 p (rowAfterWebhook t1 p u) = rowAfterWebhook t2 p u"
proof -
  have v: "validData (statusUpdateData t2 (getProp ''status'' (Some p)) (getProp ''decision'' (Some p))) =
           validData (statusUpdateData t1 (getProp ''status'' (Some p)) (getProp ''decision'' (Some p)))"
    using validData_time[of t2] validData_time[of t1] by simp
  have dt: "\<And>dv. d_tradingEnabled (noUpdate\<lparr>d_kycDetails := Some (JSON_stringify dv)\<rparr>) = None"
    by (simp add: noUpdate_def)
  show ?thesis
    using v
    by (simp add: rowAfterWebhook_def Let_def tradingRow_applyUpdate statusUpdateData_trading dt tradingRow_idem
          statusUpdate_twice applyUpdate_idem del: validData.simps split: option.splits)
qed

lemma tradingRow_completed:
  "(tradingRow p u)\<lparr>kycCompletedAt := x\<rparr> = tradingRow p (u\<lparr>kycCompletedAt := x\<rparr>)"
  by (simp add: tradingRow_def)

lemma statusUpdate_completed:
  "(applyUpdate (statusUpdateData t2 st dec) u)\<lparr>kycCompletedAt := x\<rparr> =
   (applyUpdate (statusUpdateData t1 st dec) u)\<lparr>kycCompletedAt := x\<rparr>"
  by (subst (1 2) statusUpdateData_time) (rule applyUpdate_completed)

lemma row_completed:
  "(rowAfterWebhook t2 p u)\<lparr>kycCompletedAt := x\<rparr> = (rowAfterWebhook t1 p u)\<lparr>kycCompletedAt := x\<rparr>"
proof -
  have v: "validData (statusUpdateData t2 (getProp ''status'' (Some p)) (getProp ''decision'' (Some p))) =
           validData (statusUpdateData t1 (getProp ''status'' (Some p)) (getProp ''decision'' (Some p)))"
    using validData_time[of t2] validData_time[of t1] by simp
  show ?thesis
    using v statusUpdate_completed[where ?t2.0 = t2 and ?t1.0 = t1 and st = "getProp ''status'' (Some p)"
          and dec = "getProp ''decision'' (Some p)" and u = u and x = x]
    by (simp add: rowAfterWebhook_def Let_def tradingRow_completed del: validData.simps split: option.splits)
qed

lemma row_idem: "rowAfterWebhook t p (rowAfterWebhook t p u) = rowAfterWebhook t p u"
  by (rule row_last_write)


subsection \<open>Columns written by a status update\<close>

lemma kycProvider_status:
  "kycProvider (applyUpdate (statusUpdateData t st dec) u) = Some ''DIDIT''"
  by (simp add: applyUpdate_def statusUpdateData_def Let_def noUpdate_def split: option.splits)

lemma kycStatus_status:
  "kycStatus (applyUpdate (statusUpdateData t st dec) u) =
     (if st = Some (JStr ''Approved'') then ''VERIFIED''
      else if st = Some (JStr ''Declined'') then ''FAILED''
      else if st = Some (JStr ''In Review'') then ''PENDING''
      else kycStatus u)"
  by (simp add: applyUpdate_def statusUpdateData_def Let_def noUpdate_def split: option.splits)

lemma kycCompletedAt_status:
  "kycCompletedAt (applyUpdate (statusUpdateData t st dec) u) =
     (if st = Some (JStr ''Approved'') then Some t else kycCompletedAt u)"
  by (simp add: applyUpdate_def statusUpdateData_def Let_def noUpdate_def split: option.splits)

lemma idVerified_status:
  "idVerified (applyUpdate (statusUpdateData t st dec) u) =
     (if truthy dec \<and> truthy (getProp ''id_verification'' dec)
      then getProp ''status'' (getProp ''id_verification'' dec) = Some (JStr ''Approved'')
      else idVerified u)"
  by (simp add: applyUpdate_def statusUpdateData_def Let_def noUpdate_def split: option.splits)

lemma phoneVerified_status:
  "phoneVerified (applyUpdate (statusUpdateData t st dec) u) =
     (if truthy dec \<and> truthy (getProp ''phone_verification'' dec)
      then getProp ''status'' (getProp ''phone_verification'' dec) = Some (JStr ''Approved'')
      else phoneVerified u)"
  by (simp add: applyUpdate_def statusUpdateData_def Let_def noUpdate_def split: option.splits)

lemma phoneNumber_status:
  "phoneNumber (applyUpdate (statusUpdateData t st dec) u) =
     (if truthy dec \<and> truthy (getProp ''phone_verification'' dec)
         \<and> truthy (getProp ''phone_number'' (getProp ''phone_verification'' dec))
      then (case getProp ''phone_number'' (getProp ''phone_verification'' dec) of
              Some (JStr s) \<Rightarrow> Some s | _ \<Rightarrow> None)
      else phoneNumber u)"
  by (auto simp add: applyUpdate_def statusUpdateData_def Let_def noUpdate_def
        split: option.splits json.splits)

lemma validData_status:
  "validData (statusUpdateData t st dec) =
     (truthy (getProp ''phone_number'' (getProp ''phone_verification'' dec)) \<longrightarrow>
        (\<exists>s. getProp ''phone_number'' (getProp ''phone_verification'' dec) = Some (JStr s)))"
proof (cases dec)
  case None
  then show ?thesis by (simp add: statusUpdateData_def Let_def noUpdate_def)
next
  case (Some dv)
  show ?thesis
  proof (cases "getProp ''phone_verification'' dec")
    case None
    then show ?thesis using Some by (simp add: statusUpdateData_def Let_def noUpdate_def)
  next
    case pv: (Some pvv)
    show ?thesis
    proof (cases "getProp ''phone_number'' (Some pvv)")
      case None
      then show ?thesis using Some pv by (simp add: statusUpdateData_def Let_def noUpdate_def)
    next
      case pn: (Some pnv)
      have tp: "truthy (Some pvv)" using pn by (cases pvv) simp_all
      have td: "truthy dec" using pv Some by (cases dv) simp_all
      show ?thesis using Some pv pn tp td
        by (cases pnv) (simp_all add: statusUpdateData_def Let_def noUpdate_def)
    qed
  qed
qed

lemma tradingRow_fields:
  "kycProvider (tradingRow p u) = kycProvider u \<and> kycStatus (tradingRow p u) = kycStatus u
   \<and> kycCompletedAt (tradingRow p u) = kycCompletedAt u
   \<and> idVerified (tradingRow p u) = idVerified u
   \<and> phoneVerified (tradingRow p u) = phoneVerified u
   \<and> phoneNumber (tradingRow p u) = phoneNumber u"
  by (simp add: tradingRow_def)


lemma truthy_getProp: "truthy (getProp k v) \<Longrightarrow> truthy v"
proof (cases v)
  case None
  then show "truthy (getProp k v) \<Longrightarrow> truthy v" by simp
next
  case (Some j)
  then show "truthy (getProp k v) \<Longrightarrow> truthy v" by (cases j) simp_all
qed

section \<open>Status mapping\<close>

text \<open>
  C4: an accepted \<open>status.updated\<close> webhook for an existing user, whose update the database
  takes, leaves in the row: \<open>kycProvider\<close> DIDIT; for \<open>Approved\<close> \<open>kycStatus\<close> VERIFIED and
  \<open>kycCompletedAt\<close> the time of the request, for \<open>Declined\<close> FAILED, for \<open>In Review\<close>
  PENDING, and for any other status the \<open>kycStatus\<close> (and \<open>kycCompletedAt\<close>) it had;
  \<open>idVerified\<close> is whether \<open>decision.id_verification.status\<close> is \<open>Approved\<close> when
  \<open>decision.id_verification\<close> is present and is unchanged otherwise; \<open>phoneVerified\<close>
  likewise for \<open>decision.phone_verification\<close>, and \<open>phoneNumber\<close> is overwritten with
  \<open>decision.phone_verification.phone_number\<close> when that is provided.
\<close>

theorem status_update_mapping:
  assumes "verifyWebhookSignature H cfg (rawBody r) (wh_signature r)"
      and "p = bodyValue (wh_body r)"
      and "getProp ''webhook_type'' (Some p) = Some (JStr ''status.updated'')"
      and "getProp ''vendor_data'' (Some p) = Some (JStr k)"
      and "users w k = Some u"
      and "dbFault e UpdateStatus = None"
      and "st = getProp ''status'' (Some p)"
      and "idv = getProp ''id_verification'' (getProp ''decision'' (Some p))"
      and "pv = getProp ''phone_verification'' (getProp ''decision'' (Some p))"
      and "pn = getProp ''phone_number'' pv"
      and "truthy pn \<longrightarrow> (\<exists>s. pn = Some (JStr s))"
  shows "\<exists>u'. users (after (handleWebhook H cfg e r w)) k = Some u'
           \<and> kycProvider u' = Some ''DIDIT''
           \<and> kycStatus u' =
               (if st = Some (JStr ''Approved'') then ''VERIFIED''
                else if st = Some (JStr ''Declined'') then ''FAILED''
                else if st = Some (JStr ''In Review'') then ''PENDING''
                else kycStatus u)
           \<and> kycCompletedAt u' =
               (if st = Some (JStr ''Approved'') then Some (now e) else kycCompletedAt u)
           \<and> idVerified u' =
               (if truthy idv then getProp ''status'' idv = Some (JStr ''Approved'')
                else idVerified u)
           \<and> phoneVerified u' =
               (if truthy pv then getProp ''status'' pv = Some (JStr ''Approved'')
                else phoneVerified u)
           \<and> (\<forall>s. pn = Some (JStr s) \<and> s \<noteq> [] \<longrightarrow> phoneNumber u' = Some s)
           \<and> (\<not> truthy pn \<longrightarrow> phoneNumber u' = phoneNumber u)"
proof -
  let ?dec = "getProp ''decision'' (Some p)"
  let ?d = "statusUpdateData (now e) st ?dec"
  let ?u1 = "applyUpdate ?d u"
  let ?w1 = "w\<lparr>users := (users w)(k \<mapsto> ?u1)\<rparr>"
  have valid: "validData ?d"
    using assms(9,10,11) by (simp only: validData_status)
  have disp: "dispatchWebhook e p w = Inr ?w1"
    using assms(3,4,7) updateUser_ok [OF assms(6) valid assms(5)]
    by (simp add: dispatchWebhook_def Let_def handleStatusUpdate_def del: validData.simps)
  have aft: "after (handleWebhook H cfg e r w) = finishWebhook e p ?w1"
    using assms(1,2) disp by (simp add: handleWebhook_def processWebhook_def Let_def)
  have row1: "users ?w1 k = Some ?u1" by simp
  obtain b where fin: "users (finishWebhook e p ?w1) k = Some (?u1\<lparr>tradingEnabled := b\<rparr>)"
    using finish_users [OF assms(4) row1, of e] by simp
  have tid: "truthy idv \<Longrightarrow> truthy ?dec" using assms(8) truthy_getProp by blast
  have tpv: "truthy pv \<Longrightarrow> truthy ?dec" using assms(9) truthy_getProp by blast
  have tpn: "truthy pn \<Longrightarrow> truthy pv" using assms(10) truthy_getProp by blast
  let ?u' = "?u1\<lparr>tradingEnabled := b\<rparr>"
  have f1: "kycProvider ?u' = Some ''DIDIT''" by (simp add: kycProvider_status)
  have f2: "kycStatus ?u' =
               (if st = Some (JStr ''Approved'') then ''VERIFIED''
                else if st = Some (JStr ''Declined'') then ''FAILED''
                else if st = Some (JStr ''In Review'') then ''PENDING''
                else kycStatus u)" by (simp add: kycStatus_status)
  have f3: "kycCompletedAt ?u' =
               (if st = Some (JStr ''Approved'') then Some (now e) else kycCompletedAt u)"
    by (simp add: kycCompletedAt_status)
  have f4: "idVerified ?u' =
               (if truthy idv then getProp ''status'' idv = Some (JStr ''Approved'')
                else idVerified u)"
    using tid assms(8) by (auto simp add: idVerified_status)
  have f5: "phoneVerified ?u' =
               (if truthy pv then getProp ''status'' pv = Some (JStr ''Approved'')
                else phoneVerified u)"
    using tpv assms(9) by (auto simp add: phoneVerified_status)
  have f6: "\<forall>s. pn = Some (JStr s) \<and> s \<noteq> [] \<longrightarrow> phoneNumber ?u' = Some s"
  proof (intro allI impI)
    fix s assume a: "pn = Some (JStr s) \<and> s \<noteq> []"
    then have t: "truthy pn" by simp
    then show "phoneNumber ?u' = Some s"
      using a tpn [OF t] tpv [OF tpn [OF t]] assms(9,10)
      by (simp add: phoneNumber_status)
  qed
  have f7: "\<not> truthy pn \<longrightarrow> phoneNumber ?u' = phoneNumber u"
    using assms(9,10) by (simp add: phoneNumber_status)
  show ?thesis
    unfolding aft using fin f1 f2 f3 f4 f5 f6 f7 by blast
qed


lemma approvedBody_props:
  "getProp ''webhook_type'' (Some (bodyValue approvedBody)) = Some (JStr ''status.updated'')"
  "getProp ''vendor_data'' (Some (bodyValue approvedBody)) = Some (JStr uid1)"
  "getProp ''status'' (Some (bodyValue approvedBody)) = Some (JStr ''Approved'')"
  "getProp ''decision'' (Some (bodyValue approvedBody)) = Some approvedDecision"
  by (simp_all add: approvedBody_def)

lemma approvedDecision_props:
  "getProp ''id_verification'' (Some approvedDecision) = Some (JObj [(''status'', JStr ''Approved'')])"
  "getProp ''phone_verification'' (Some approvedDecision)
     = Some (JObj [(''status'', JStr ''Approved''), (''phone_number'', JStr ''+15551234567'')])"
  "truthy (Some approvedDecision)"
  by (simp_all add: approvedDecision_def)

lemma approvedReq_body: "wh_body approvedReq = approvedBody"
  by (simp add: approvedReq_def)

lemma pendingWorld_row: "users pendingWorld uid1 = Some (rowWith ''PENDING'' 1)"
  by (simp add: pendingWorld_def worldWith_def rowWith_def newUser_def)

lemma quiet_env: "dbFault (quiet t) c = None" "now (quiet t) = t"
  by (simp_all add: quiet_def)

theorem status_update_mapping_witness:
  "verifyWebhookSignature exampleDigest cfg0 (rawBody approvedReq) (wh_signature approvedReq)
   \<and> users pendingWorld uid1 = Some (rowWith ''PENDING'' 1)
   \<and> (\<exists>u'. users deliveredOnce uid1 = Some u'
          \<and> kycProvider u' = Some ''DIDIT'' \<and> kycStatus u' = ''VERIFIED''
          \<and> kycCompletedAt u' = Some 100 \<and> idVerified u' \<and> phoneVerified u'
          \<and> phoneNumber u' = Some ''+15551234567'')"
proof -
  let ?p = "bodyValue (wh_body approvedReq)"
  let ?pv = "getProp ''phone_verification'' (getProp ''decision'' (Some ?p))"
  have pn: "getProp ''phone_number'' ?pv = Some (JStr ''+15551234567'')"
    by (simp add: approvedReq_body approvedBody_props approvedDecision_props)
  have h11: "truthy (getProp ''phone_number'' ?pv) \<longrightarrow>
               (\<exists>s. getProp ''phone_number'' ?pv = Some (JStr s))"
    using pn by simp
  have h3: "getProp ''webhook_type'' (Some ?p) = Some (JStr ''status.updated'')"
    by (simp add: approvedReq_body approvedBody_props)
  have h4: "getProp ''vendor_data'' (Some ?p) = Some (JStr uid1)"
    by (simp add: approvedReq_body approvedBody_props)
  have h6: "dbFault (quiet 100) UpdateStatus = None" by (rule quiet_env)
  note t = status_update_mapping [OF approvedReq_verifies refl h3 h4 pendingWorld_row
             h6 refl refl refl refl h11]
  obtain u' where u: "users deliveredOnce uid1 = Some u'"
      "kycProvider u' = Some ''DIDIT''"
      "kycStatus u' =
         (if getProp ''status'' (Some ?p) = Some (JStr ''Approved'') then ''VERIFIED''
          else if getProp ''status'' (Some ?p) = Some (JStr ''Declined'') then ''FAILED''
          else if getProp ''status'' (Some ?p) = Some (JStr ''In Review'') then ''PENDING''
          else kycStatus (rowWith ''PENDING'' 1))"
      "kycCompletedAt u' =
         (if getProp ''status'' (Some ?p) = Some (JStr ''Approved'') then Some (now (quiet 100))
          else kycCompletedAt (rowWith ''PENDING'' 1))"
      "idVerified u' =
         (if truthy (getProp ''id_verification'' (getProp ''decision'' (Some ?p)))
          then getProp ''status'' (getProp ''id_verification'' (getProp ''decision'' (Some ?p)))
                 = Some (JStr ''Approved'')
          else idVerified (rowWith ''PENDING'' 1))"
      "phoneVerified u' =
         (if truthy ?pv then getProp ''status'' ?pv = Some (JStr ''Approved'')
          else phoneVerified (rowWith ''PENDING'' 1))"
      "\<forall>s. getProp ''phone_number'' ?pv = Some (JStr s) \<and> s \<noteq> [] \<longrightarrow> phoneNumber u' = Some s"
    using t unfolding deliveredOnce_def by blast
  have st: "kycStatus u' = ''VERIFIED''"
    using u(3) by (simp add: approvedReq_body approvedBody_props)
  have ct: "kycCompletedAt u' = Some 100"
    using u(4) by (simp add: approvedReq_body approvedBody_props quiet_env)
  have iv: "idVerified u'"
    using u(5) by (simp add: approvedReq_body approvedBody_props approvedDecision_props)
  have pvf: "phoneVerified u'"
    using u(6) by (simp add: approvedReq_body approvedBody_props approvedDecision_props)
  have ph: "phoneNumber u' = Some ''+15551234567''"
    using u(7) pn by simp
  show ?thesis
    using approvedReq_verifies pendingWorld_row u(1,2) st ct iv pvf ph by blast
qed


text \<open>
  The legacy \<open>updateUserVerificationStatus\<close> is not a \<open>status.updated\<close> handler: it does not
  look at \<open>webhook_type\<close> and knows one successful status, \<open>completed\<close>; any other status,
  \<open>Approved\<close> included, is stored as FAILED with \<open>kycCompletedAt\<close> reset.
\<close>

lemma legacy_status_mapping:
  "d_kycStatus (legacyUpdateData t st details)
     = Some (if st = Some (JStr ''completed'') then ''VERIFIED'' else ''FAILED'')
   \<and> d_kycCompletedAt (legacyUpdateData t st details)
     = Some (if st = Some (JStr ''completed'') then Some t else None)"
  by (simp add: legacyUpdateData_def Let_def noUpdate_def)

section \<open>Redelivery of a webhook\<close>

lemma rejected_unchanged:
  "\<not> verifyWebhookSignature H cfg (rawBody r) (wh_signature r) \<Longrightarrow>
   after (handleWebhook H cfg e r w) = w"
  by (simp add: handleWebhook_def)

text \<open>The user table after one delivery, in the three cases of a request.\<close>

lemma deliver_cases:
  assumes "\<forall>c. dbFault e c = None"
  shows "users (after (handleWebhook H cfg e r w)) =
           (if verifyWebhookSignature H cfg (rawBody r) (wh_signature r)
            then (case getProp ''vendor_data'' (Some (bodyValue (wh_body r))) of
                    Some (JStr k) \<Rightarrow>
                      (case users w k of
                         Some u \<Rightarrow>
                           (users w)(k \<mapsto> rowAfterWebhook (now e) (bodyValue (wh_body r)) u)
                       | None \<Rightarrow> users w)
                  | _ \<Rightarrow> users w)
            else users w)"
proof (cases "verifyWebhookSignature H cfg (rawBody r) (wh_signature r)")
  case False
  then show ?thesis by (simp add: rejected_unchanged)
next
  case True
  show ?thesis
  proof (cases "\<exists>k u. getProp ''vendor_data'' (Some (bodyValue (wh_body r))) = Some (JStr k)
                   \<and> users w k = Some u")
    case yes: True
    then obtain k u where ku: "getProp ''vendor_data'' (Some (bodyValue (wh_body r))) = Some (JStr k)"
        "users w k = Some u" by blast
    show ?thesis using deliver_row [OF assms True ku] True ku by simp
  next
    case no: False
    then have n: "\<forall>k. getProp ''vendor_data'' (Some (bodyValue (wh_body r))) = Some (JStr k)
                   \<longrightarrow> users w k = None"
      by auto
    have "users (after (handleWebhook H cfg e r w)) = users w"
      by (rule deliver_none [OF n])
    then show ?thesis using n True by (auto split: option.splits json.splits)
  qed
qed

text \<open>
  C5, as stated, has two deliveries of the same \<open>status.updated\<close> payload end in the row
  that one delivery leaves.  An \<open>Approved\<close> delivery writes \<open>kycCompletedAt = new Date()\<close>:
  delivered at time 100 and again at time 200, the row ends with \<open>kycCompletedAt\<close> 200,
  after one delivery it holds 100.
\<close>

theorem redelivery_counterexample:
  "map_option kycCompletedAt (users deliveredOnce uid1) = Some (Some 100)
   \<and> map_option kycCompletedAt (users deliveredTwice uid1) = Some (Some 200)
   \<and> users deliveredTwice uid1 \<noteq> users deliveredOnce uid1"
proof -
  have nf: "\<And>t. \<forall>c. dbFault (quiet t) c = None" by (simp add: quiet_env)
  have vd: "getProp ''vendor_data'' (Some (bodyValue (wh_body approvedReq))) = Some (JStr uid1)"
    by (simp add: approvedReq_body approvedBody_props)
  have valid: "\<And>t. validData (statusUpdateData t (Some (JStr ''Approved'')) (Some approvedDecision))"
    by (simp only: validData_status) (simp add: approvedDecision_props)
  have row: "\<And>t u. kycCompletedAt (rowAfterWebhook t (bodyValue approvedBody) u) = Some t"
    using valid
    by (simp add: rowAfterWebhook_def Let_def approvedBody_props tradingRow_fields
          kycCompletedAt_status del: validData.simps)
  let ?u1 = "rowAfterWebhook 100 (bodyValue approvedBody) (rowWith ''PENDING'' 1)"
  have once: "users deliveredOnce = (users pendingWorld)(uid1 \<mapsto> ?u1)"
    unfolding deliveredOnce_def
    using deliver_row [OF nf approvedReq_verifies vd pendingWorld_row]
    by (simp add: quiet_env approvedReq_body)
  then have r1: "users deliveredOnce uid1 = Some ?u1" by simp
  have twice: "users deliveredTwice uid1 = Some (rowAfterWebhook 200 (bodyValue approvedBody) ?u1)"
    unfolding deliveredTwice_def
    using deliver_row [OF nf approvedReq_verifies vd r1]
    by (simp add: quiet_env approvedReq_body)
  have a: "map_option kycCompletedAt (users deliveredOnce uid1) = Some (Some 100)"
    using r1 row by simp
  have b: "map_option kycCompletedAt (users deliveredTwice uid1) = Some (Some 200)"
    using twice row by simp
  have c: "users deliveredTwice uid1 \<noteq> users deliveredOnce uid1"
  proof
    assume "users deliveredTwice uid1 = users deliveredOnce uid1"
    then have "map_option kycCompletedAt (users deliveredTwice uid1)
                 = map_option kycCompletedAt (users deliveredOnce uid1)" by (rule arg_cong)
    then have "Some (Some (200::nat)) = Some (Some 100)" unfolding a b .
    then show False by simp
  qed
  show ?thesis using a b c by (intro conjI)
qed

text \<open>
  C5, amended: when no database call fails, delivering the same webhook twice leaves the
  user table that delivering it once at the time of the second delivery leaves (every
  column written is overwritten, nothing is incremented, and the trading flag is only set
  to true); it is the table that the first delivery left in every column but
  \<open>kycCompletedAt\<close>, and in that column too when the clock has not moved.
\<close>

theorem redelivery_last_write_wins:
  assumes "\<forall>c. dbFault e1 c = None" and "\<forall>c. dbFault e2 c = None"
  shows "users (after (handleWebhook H cfg e2 r (after (handleWebhook H cfg e1 r w))))
           = users (after (handleWebhook H cfg e2 r w))
         \<and> (\<forall>k. map_option (\<lambda>u. u\<lparr>kycCompletedAt := None\<rparr>)
                   (users (after (handleWebhook H cfg e2 r (after (handleWebhook H cfg e1 r w)))) k)
                = map_option (\<lambda>u. u\<lparr>kycCompletedAt := None\<rparr>)
                   (users (after (handleWebhook H cfg e1 r w)) k))
         \<and> (now e1 = now e2 \<longrightarrow>
               users (after (handleWebhook H cfg e2 r (after (handleWebhook H cfg e1 r w))))
                 = users (after (handleWebhook H cfg e1 r w)))"
proof -
  let ?p = "bodyValue (wh_body r)"
  let ?w1 = "after (handleWebhook H cfg e1 r w)"
  let ?w2 = "after (handleWebhook H cfg e2 r ?w1)"
  let ?v2 = "after (handleWebhook H cfg e2 r w)"
  have A: "users ?w2 = users ?v2
           \<and> (\<forall>k. map_option (\<lambda>u. u\<lparr>kycCompletedAt := None\<rparr>) (users ?w2 k)
                  = map_option (\<lambda>u. u\<lparr>kycCompletedAt := None\<rparr>) (users ?w1 k))"
  proof (cases "verifyWebhookSignature H cfg (rawBody r) (wh_signature r)
                 \<and> (\<exists>k u. getProp ''vendor_data'' (Some ?p) = Some (JStr k) \<and> users w k = Some u)")
    case True
    then obtain k u where ok: "verifyWebhookSignature H cfg (rawBody r) (wh_signature r)"
        and vd: "getProp ''vendor_data'' (Some ?p) = Some (JStr k)"
        and row: "users w k = Some u" by blast
    have u1: "users ?w1 = (users w)(k \<mapsto> rowAfterWebhook (now e1) ?p u)"
      by (rule deliver_row [OF assms(1) ok vd row])
    then have r1: "users ?w1 k = Some (rowAfterWebhook (now e1) ?p u)" by simp
    have u2: "users ?w2 = (users ?w1)(k \<mapsto> rowAfterWebhook (now e2) ?p (rowAfterWebhook (now e1) ?p u))"
      by (rule deliver_row [OF assms(2) ok vd r1])
    have v2: "users ?v2 = (users w)(k \<mapsto> rowAfterWebhook (now e2) ?p u)"
      by (rule deliver_row [OF assms(2) ok vd row])
    have eq: "users ?w2 = users ?v2"
      unfolding u2 u1 v2 by (simp add: row_last_write)
    have fld: "\<forall>k'. map_option (\<lambda>u. u\<lparr>kycCompletedAt := None\<rparr>) (users ?w2 k')
                  = map_option (\<lambda>u. u\<lparr>kycCompletedAt := None\<rparr>) (users ?w1 k')"
      unfolding eq v2 u1
      using row_completed [where ?t2.0 = "now e2" and ?t1.0 = "now e1" and p = ?p and u = u
              and x = None]
      by simp
    show ?thesis using eq fld by blast
  next
    case False
    have same: "\<And>(e::env) (w'::world). \<forall>c. dbFault e c = None \<Longrightarrow> users w' = users w \<Longrightarrow>
                  users (after (handleWebhook H cfg e r w')) = users w"
    proof -
      fix e :: env and w' :: world
      assume nf: "\<forall>c. dbFault e c = None" and uw: "users w' = users w"
      show "users (after (handleWebhook H cfg e r w')) = users w"
        using False uw unfolding deliver_cases [OF nf]
        by (auto split: option.splits json.splits)
    qed
    have s1: "users ?w1 = users w" by (rule same [OF assms(1) refl])
    have s2: "users ?w2 = users w" by (rule same [OF assms(2) s1])
    have s3: "users ?v2 = users w" by (rule same [OF assms(2) refl])
    show ?thesis using s1 s2 s3 by simp
  qed
  have B: "now e1 = now e2 \<longrightarrow> users ?w2 = users ?w1"
  proof
    assume t: "now e1 = now e2"
    have "users ?v2 = users ?w1"
      unfolding deliver_cases [OF assms(1)] deliver_cases [OF assms(2)] t by simp
    then show "users ?w2 = users ?w1" using A by simp
  qed
  show ?thesis using A B by blast
qed

theorem redelivery_last_write_wins_witness:
  "(\<forall>c. dbFault (quiet 100) c = None) \<and> (\<forall>c. dbFault (quiet 200) c = None)
   \<and> users deliveredTwice
       = users (after (handleWebhook exampleDigest cfg0 (quiet 200) approvedReq pendingWorld))
   \<and> map_option (\<lambda>u. u\<lparr>kycCompletedAt := None\<rparr>) (users deliveredTwice uid1)
       = map_option (\<lambda>u. u\<lparr>kycCompletedAt := None\<rparr>) (users deliveredOnce uid1)
   \<and> users (after (handleWebhook exampleDigest cfg0 (quiet 100) approvedReq deliveredOnce))
       = users deliveredOnce"
proof -
  have n1: "\<forall>c. dbFault (quiet 100) c = None" by (simp add: quiet_env)
  have n2: "\<forall>c. dbFault (quiet 200) c = None" by (simp add: quiet_env)
  note t = redelivery_last_write_wins [OF n1 n2, where H = exampleDigest and cfg = cfg0
             and r = approvedReq and w = pendingWorld]
  note s = redelivery_last_write_wins [OF n1 n1, where H = exampleDigest and cfg = cfg0
             and r = approvedReq and w = pendingWorld]
  have a: "users deliveredTwice
       = users (after (handleWebhook exampleDigest cfg0 (quiet 200) approvedReq pendingWorld))"
    using t unfolding deliveredTwice_def deliveredOnce_def by blast
  have b: "map_option (\<lambda>u. u\<lparr>kycCompletedAt := None\<rparr>) (users deliveredTwice uid1)
       = map_option (\<lambda>u. u\<lparr>kycCompletedAt := None\<rparr>) (users deliveredOnce uid1)"
    using t unfolding deliveredTwice_def deliveredOnce_def by blast
  have c: "users (after (handleWebhook exampleDigest cfg0 (quiet 100) approvedReq deliveredOnce))
       = users deliveredOnce"
    using s unfolding deliveredOnce_def by blast
  show ?thesis using n1 n2 a b c by (intro conjI)
qed


section \<open>Cache failures and provider failures\<close>

lemma db_calls_ignore_redis:
  "findUnique (e\<lparr>redisFault := f\<rparr>) i w = findUnique e i w"
  "createUser (e\<lparr>redisFault := f\<rparr>) i m w = createUser e i m w"
  "updateUser (e\<lparr>redisFault := f\<rparr>) site j d w = updateUser e site j d w"
  by (simp_all add: findUnique_def createUser_def updateUser_def)

lemma ensureUser_ignores_redis: "ensureUser (e\<lparr>redisFault := f\<rparr>) r w = ensureUser e r w"
  by (simp add: ensureUser_def db_calls_ignore_redis Let_def
        split: sum.splits option.splits json.splits)

lemma redisSet_users:
  "users (case redisSet e site k v ttl w of Inl x \<Rightarrow> w | Inr w' \<Rightarrow> w') = users w"
  by (simp add: redisSet_def split: option.splits)

lemma sessionAccepted_redis:
  "reply (sessionAccepted (e\<lparr>redisFault := f\<rparr>) r u d cs w) = reply (sessionAccepted e r u d cs w)
   \<and> users (after (sessionAccepted (e\<lparr>redisFault := f\<rparr>) r u d cs w))
       = users (after (sessionAccepted e r u d cs w))
   \<and> calls (sessionAccepted (e\<lparr>redisFault := f\<rparr>) r u d cs w) = calls (sessionAccepted e r u d cs w)"
  by (simp add: sessionAccepted_def db_calls_ignore_redis caught_def Let_def redisSet_users
        split: sum.splits)

lemma createVerificationSession_redis:
  "reply (createVerificationSession cfg (e\<lparr>redisFault := f\<rparr>) r w)
     = reply (createVerificationSession cfg e r w)
   \<and> users (after (createVerificationSession cfg (e\<lparr>redisFault := f\<rparr>) r w))
       = users (after (createVerificationSession cfg e r w))
   \<and> calls (createVerificationSession cfg (e\<lparr>redisFault := f\<rparr>) r w)
       = calls (createVerificationSession cfg e r w)"
  using sessionAccepted_redis
  by (simp add: createVerificationSession_def ensureUser_ignores_redis caught_def
        split: sum.splits prod.splits)

lemma phoneAccepted_redis:
  "reply (phoneAccepted (e\<lparr>redisFault := f\<rparr>) r n d cs w) = reply (phoneAccepted e r n d cs w)
   \<and> users (after (phoneAccepted (e\<lparr>redisFault := f\<rparr>) r n d cs w))
       = users (after (phoneAccepted e r n d cs w))
   \<and> calls (phoneAccepted (e\<lparr>redisFault := f\<rparr>) r n d cs w) = calls (phoneAccepted e r n d cs w)"
  by (simp add: phoneAccepted_def caught_def Let_def redisSet_users)

lemma sendPhoneVerificationCode_redis:
  "reply (sendPhoneVerificationCode (e\<lparr>redisFault := f\<rparr>) r w)
     = reply (sendPhoneVerificationCode e r w)
   \<and> users (after (sendPhoneVerificationCode (e\<lparr>redisFault := f\<rparr>) r w))
       = users (after (sendPhoneVerificationCode e r w))
   \<and> calls (sendPhoneVerificationCode (e\<lparr>redisFault := f\<rparr>) r w)
       = calls (sendPhoneVerificationCode e r w)"
  using phoneAccepted_redis
  by (simp add: sendPhoneVerificationCode_def caught_def Let_def
        split: sum.splits option.splits)

lemma dispatchWebhook_redis:
  "dispatchWebhook (e\<lparr>redisFault := f\<rparr>) p w = dispatchWebhook e p w"
  by (simp add: dispatchWebhook_def handleStatusUpdate_def handleDataUpdate_def
        db_calls_ignore_redis Let_def split: option.splits)

lemma trigger_redis:
  "triggerPostVerificationActions (e\<lparr>redisFault := f\<rparr>) i w = triggerPostVerificationActions e i w"
  by (simp add: triggerPostVerificationActions_def db_calls_ignore_redis)

lemma users_trigger_cache:
  "users (w::world) = users w' \<Longrightarrow>
   users (triggerPostVerificationActions e i w) = users (triggerPostVerificationActions e i w')"
  by (auto simp add: triggerPostVerificationActions_def updateUser_def
        split: option.splits json.splits)

lemma finishWebhook_redis:
  "users (finishWebhook (e\<lparr>redisFault := f\<rparr>) p w) = users (finishWebhook e p w)"
proof -
  let ?st = "getProp ''status'' (Some p)"
  let ?key = "sessionKey (getProp ''session_id'' (Some p))"
  let ?del = "\<lambda>e'. if ?st \<in> {Some (JStr ''Approved''), Some (JStr ''Declined''), Some (JStr ''Abandoned'')}
                then (case redisDel e' ?key w of Inl _ \<Rightarrow> w | Inr w' \<Rightarrow> w') else w"
  have u: "\<And>e'. users (?del e') = users w" by (simp add: users_redisDel)
  have fin: "\<And>e'. finishWebhook e' p w =
         (if ?st = Some (JStr ''Approved'') \<and> truthy (getProp ''decision'' (Some p))
          then triggerPostVerificationActions e' (getProp ''vendor_data'' (Some p)) (?del e')
          else ?del e')"
    by (simp add: finishWebhook_def Let_def)
  have d: "users (?del (e\<lparr>redisFault := f\<rparr>)) = users (?del e)"
    unfolding u ..
  have t: "users (triggerPostVerificationActions e (getProp ''vendor_data'' (Some p))
                   (?del (e\<lparr>redisFault := f\<rparr>)))
        = users (triggerPostVerificationActions e (getProp ''vendor_data'' (Some p)) (?del e))"
    using d by (rule users_trigger_cache)
  show ?thesis
  proof (cases "?st = Some (JStr ''Approved'') \<and> truthy (getProp ''decision'' (Some p))")
    case True
    have ft: "\<And>e'. finishWebhook e' p w
            = triggerPostVerificationActions e' (getProp ''vendor_data'' (Some p)) (?del e')"
      using True by (simp add: fin)
    show ?thesis unfolding ft trigger_redis by (rule t)
  next
    case False
    have ff: "\<And>e'. finishWebhook e' p w = ?del e'"
      using False unfolding fin by (simp only: if_False)
    show ?thesis unfolding ff by (rule d)
  qed
qed

lemma handleWebhook_redis:
  "reply (handleWebhook H cfg (e\<lparr>redisFault := f\<rparr>) r w) = reply (handleWebhook H cfg e r w)
   \<and> users (after (handleWebhook H cfg (e\<lparr>redisFault := f\<rparr>) r w))
       = users (after (handleWebhook H cfg e r w))"
  by (simp add: handleWebhook_def processWebhook_def Let_def dispatchWebhook_redis
        finishWebhook_redis split: sum.splits)

lemma provider_failure_session:
  assumes "provider e = Inl x" and "calls (createVerificationSession cfg e r w) \<noteq> []"
  shows "reply (createVerificationSession cfg e r w) = handleDiditApiError x
         \<and> cache (after (createVerificationSession cfg e r w)) = cache w
         \<and> map_option verificationRetries
             (users (after (createVerificationSession cfg e r w)) (sr_userId r))
           = Some (case users w (sr_userId r) of None \<Rightarrow> 0 | Some u \<Rightarrow> verificationRetries u)"
  using assms
  by (auto simp add: createVerificationSession_def ensureUser_def findUnique_def createUser_def
        newUser_def caught_def Let_def
        split: if_splits sum.splits option.splits prod.splits json.splits)

lemma provider_failure_phone:
  assumes "provider e = Inl x" and "calls (sendPhoneVerificationCode e r w) \<noteq> []"
  shows "reply (sendPhoneVerificationCode e r w) = handleDiditApiError x
         \<and> after (sendPhoneVerificationCode e r w) = w"
  using assms
  by (auto simp add: sendPhoneVerificationCode_def caught_def Let_def
        split: if_splits option.splits)


text \<open>
  C7: in session creation, phone-code sending and webhook processing, whether and how the
  Redis calls fail changes neither the reply nor the user table nor the provider calls
  made (the failure is caught and logged inside the handler); and when the provider call
  of session creation or of phone-code sending fails, the reply is the mapped error of
  \<open>handleDiditApiError\<close> and the handler stops there: the attempt counter is not
  incremented and nothing is cached.
\<close>

theorem cache_failure_ignored:
  "reply (createVerificationSession cfg (e\<lparr>redisFault := f\<rparr>) sr w)
     = reply (createVerificationSession cfg (e\<lparr>redisFault := g\<rparr>) sr w)
   \<and> users (after (createVerificationSession cfg (e\<lparr>redisFault := f\<rparr>) sr w))
     = users (after (createVerificationSession cfg (e\<lparr>redisFault := g\<rparr>) sr w))
   \<and> calls (createVerificationSession cfg (e\<lparr>redisFault := f\<rparr>) sr w)
     = calls (createVerificationSession cfg (e\<lparr>redisFault := g\<rparr>) sr w)
   \<and> reply (sendPhoneVerificationCode (e\<lparr>redisFault := f\<rparr>) pr w)
     = reply (sendPhoneVerificationCode (e\<lparr>redisFault := g\<rparr>) pr w)
   \<and> users (after (sendPhoneVerificationCode (e\<lparr>redisFault := f\<rparr>) pr w))
     = users (after (sendPhoneVerificationCode (e\<lparr>redisFault := g\<rparr>) pr w))
   \<and> calls (sendPhoneVerificationCode (e\<lparr>redisFault := f\<rparr>) pr w)
     = calls (sendPhoneVerificationCode (e\<lparr>redisFault := g\<rparr>) pr w)
   \<and> reply (handleWebhook H cfg (e\<lparr>redisFault := f\<rparr>) r w)
     = reply (handleWebhook H cfg (e\<lparr>redisFault := g\<rparr>) r w)
   \<and> users (after (handleWebhook H cfg (e\<lparr>redisFault := f\<rparr>) r w))
     = users (after (handleWebhook H cfg (e\<lparr>redisFault := g\<rparr>) r w))
   \<and> (provider e = Inl x \<and> calls (createVerificationSession cfg e sr w) \<noteq> [] \<longrightarrow>
        reply (createVerificationSession cfg e sr w) = handleDiditApiError x
        \<and> cache (after (createVerificationSession cfg e sr w)) = cache w
        \<and> map_option verificationRetries
             (users (after (createVerificationSession cfg e sr w)) (sr_userId sr))
           = Some (case users w (sr_userId sr) of None \<Rightarrow> 0 | Some u \<Rightarrow> verificationRetries u))
   \<and> (provider e = Inl x \<and> calls (sendPhoneVerificationCode e pr w) \<noteq> [] \<longrightarrow>
        reply (sendPhoneVerificationCode e pr w) = handleDiditApiError x
        \<and> after (sendPhoneVerificationCode e pr w) = w)"
proof -
  note s = createVerificationSession_redis [where cfg = cfg and e = e and r = sr and w = w]
  note p = sendPhoneVerificationCode_redis [where e = e and r = pr and w = w]
  note h = handleWebhook_redis [where H = H and cfg = cfg and e = e and r = r and w = w]
  have a: "reply (createVerificationSession cfg (e\<lparr>redisFault := f\<rparr>) sr w)
             = reply (createVerificationSession cfg (e\<lparr>redisFault := g\<rparr>) sr w)
           \<and> users (after (createVerificationSession cfg (e\<lparr>redisFault := f\<rparr>) sr w))
             = users (after (createVerificationSession cfg (e\<lparr>redisFault := g\<rparr>) sr w))
           \<and> calls (createVerificationSession cfg (e\<lparr>redisFault := f\<rparr>) sr w)
             = calls (createVerificationSession cfg (e\<lparr>redisFault := g\<rparr>) sr w)"
    using s [where f = f] s [where f = g] by simp
  have b: "reply (sendPhoneVerificationCode (e\<lparr>redisFault := f\<rparr>) pr w)
             = reply (sendPhoneVerificationCode (e\<lparr>redisFault := g\<rparr>) pr w)
           \<and> users (after (sendPhoneVerificationCode (e\<lparr>redisFault := f\<rparr>) pr w))
             = users (after (sendPhoneVerificationCode (e\<lparr>redisFault := g\<rparr>) pr w))
           \<and> calls (sendPhoneVerificationCode (e\<lparr>redisFault := f\<rparr>) pr w)
             = calls (sendPhoneVerificationCode (e\<lparr>redisFault := g\<rparr>) pr w)"
    using p [where f = f] p [where f = g] by simp
  have c: "reply (handleWebhook H cfg (e\<lparr>redisFault := f\<rparr>) r w)
             = reply (handleWebhook H cfg (e\<lparr>redisFault := g\<rparr>) r w)
           \<and> users (after (handleWebhook H cfg (e\<lparr>redisFault := f\<rparr>) r w))
             = users (after (handleWebhook H cfg (e\<lparr>redisFault := g\<rparr>) r w))"
    using h [where f = f] h [where f = g] by simp
  show ?thesis
    using a b c provider_failure_session [of e x cfg sr w] provider_failure_phone [of e x pr w]
    by blast
qed

lemma providerDown_facts:
  "provider providerDown = Inl (upstreamError 429)"
  "calls (createVerificationSession cfg0 providerDown sessionReq emptyWorld) \<noteq> []"
  "calls (sendPhoneVerificationCode providerDown phoneReq emptyWorld) \<noteq> []"
  by (simp_all add: providerDown_def quiet_def createVerificationSession_def sessionReq_def
        ensureUser_def findUnique_def emptyWorld_def createUser_def newUser_def
        MAX_VERIFICATION_RETRIES_def caught_def sendPhoneVerificationCode_def phoneReq_def)

lemma cacheDown_created:
  "replyStatus (reply (createVerificationSession cfg0 cacheDown sessionReq emptyWorld)) = Some 201
   \<and> cache (after (createVerificationSession cfg0 cacheDown sessionReq emptyWorld)) = Map.empty"
  by (simp add: cacheDown_def createVerificationSession_def sessionReq_def ensureUser_def
        findUnique_def quiet_def emptyWorld_def createUser_def newUser_def
        MAX_VERIFICATION_RETRIES_def sessionAccepted_def sessionData_def updateUser_def
        redisSet_def redisDown_def Let_def applyUpdate_def noUpdate_def replyStatus_def)

lemma quiet_redis: "(quiet t)\<lparr>redisFault := (\<lambda>_. None)\<rparr> = quiet t"
  by (simp add: quiet_def)

theorem cache_failure_ignored_witness:
  "replyStatus (reply (createVerificationSession cfg0 cacheDown sessionReq emptyWorld)) = Some 201
   \<and> reply (createVerificationSession cfg0 cacheDown sessionReq emptyWorld) = reply attempt1
   \<and> users (after (createVerificationSession cfg0 cacheDown sessionReq emptyWorld))
       = users (after attempt1)
   \<and> provider providerDown = Inl (upstreamError 429)
   \<and> calls (createVerificationSession cfg0 providerDown sessionReq emptyWorld) \<noteq> []
   \<and> reply (createVerificationSession cfg0 providerDown sessionReq emptyWorld)
       = Reply 429 (RateLimitExceeded (Some ''30''))
   \<and> calls (sendPhoneVerificationCode providerDown phoneReq emptyWorld) \<noteq> []
   \<and> sendPhoneVerificationCode providerDown phoneReq emptyWorld
       = \<lparr>reply = Reply 429 (RateLimitExceeded (Some ''30'')), after = emptyWorld,
          calls = [PostPhoneSend (JObj [(''phone_number'', JStr ''+15551234567'')])]\<rparr>"
proof -
  note t = cache_failure_ignored [where cfg = cfg0 and e = "quiet 100" and f = redisDown
             and g = "\<lambda>_. None" and sr = sessionReq and w = emptyWorld and pr = phoneReq
             and H = exampleDigest and r = approvedReq and x = "upstreamError 429"]
  note d = cache_failure_ignored [where cfg = cfg0 and e = providerDown and f = redisDown
             and g = "\<lambda>_. None" and sr = sessionReq and w = emptyWorld and pr = phoneReq
             and H = exampleDigest and r = approvedReq and x = "upstreamError 429"]
  have a: "reply (createVerificationSession cfg0 cacheDown sessionReq emptyWorld) = reply attempt1"
    using t unfolding cacheDown_def attempt1_def quiet_redis by blast
  have b: "users (after (createVerificationSession cfg0 cacheDown sessionReq emptyWorld))
       = users (after attempt1)"
    using t unfolding cacheDown_def attempt1_def quiet_redis by blast
  have m: "handleDiditApiError (upstreamError 429) = Reply 429 (RateLimitExceeded (Some ''30''))"
    by (simp add: handleDiditApiError_def upstreamError_def)
  have c: "reply (createVerificationSession cfg0 providerDown sessionReq emptyWorld)
       = handleDiditApiError (upstreamError 429)"
    using d providerDown_facts by blast
  have e1: "reply (sendPhoneVerificationCode providerDown phoneReq emptyWorld)
       = handleDiditApiError (upstreamError 429)
       \<and> after (sendPhoneVerificationCode providerDown phoneReq emptyWorld) = emptyWorld"
    using d providerDown_facts by blast
  have e2: "calls (sendPhoneVerificationCode providerDown phoneReq emptyWorld)
       = [PostPhoneSend (JObj [(''phone_number'', JStr ''+15551234567'')])]"
    by (simp add: providerDown_def quiet_def sendPhoneVerificationCode_def phoneReq_def
          caught_def)
  have e3: "sendPhoneVerificationCode providerDown phoneReq emptyWorld
       = \<lparr>reply = Reply 429 (RateLimitExceeded (Some ''30'')), after = emptyWorld,
          calls = [PostPhoneSend (JObj [(''phone_number'', JStr ''+15551234567'')])]\<rparr>"
    using e1 e2 m by (intro outcome.equality) simp_all
  show ?thesis
    using cacheDown_created a b providerDown_facts c m e3 by simp
qed


end
